theory Spec2Isabelle
  imports Main "HOL-Library.Char_ord" "HOL-Library.List_Lexorder" "HOL-Library.Multiset"
begin

section \<open>Values, dictionaries and exceptions\<close>

text \<open>
  The module \<^verbatim>\<open>pyeasee/charger.py\<close> works on decoded JSON: payloads are Python
  dictionaries with string keys whose values are \<^verbatim>\<open>None\<close>, booleans, integers, floats,
  strings, lists and dictionaries. Floats are kept opaque (type \<open>'f\<close>); what the
  interpreter does with them is taken as a parameter, see \<open>builtins\<close> below.
  A dictionary is an association list in insertion order.
\<close>

datatype 'f pyval =
    PyNone
  | PyBool bool
  | PyInt int
  | PyFloat 'f
  | PyStr string
  | PyList "'f pyval list"
  | PyDict "(string \<times> 'f pyval) list"

type_synonym 'f pydict = "(string \<times> 'f pyval) list"

text \<open>
  Every \<^verbatim>\<open>raise\<close> is a value. \<open>NotFoundException\<close> is the class imported from
  \<^verbatim>\<open>.exceptions\<close>; \<open>OtherFailure\<close> stands for any other exception a collaborator
  raises. \<open>KeyError\<close> does not carry the missing key.
\<close>

datatype exn =
    NotFoundException
  | KeyError
  | TypeError
  | ValueError
  | OverflowError
  | AttributeError
  | OtherFailure nat

text \<open>
  Behaviour of the interpreter on floats and on values whose text never reaches a result:
  \<^item> \<open>float_of_int\<close>: \<^verbatim>\<open>float(n)\<close> for an integer, \<open>None\<close> for \<^verbatim>\<open>OverflowError\<close>;
  \<^item> \<open>float_of_str\<close>: \<^verbatim>\<open>float(s)\<close> for a string, \<open>None\<close> for \<^verbatim>\<open>ValueError\<close>;
  \<^item> \<open>float_str\<close>: \<^verbatim>\<open>str(x)\<close> of a float;
  \<^item> \<open>float_as_int\<close>: the integer a float is equal to (and hashes like), if there is one;
  \<^item> \<open>container_str\<close>: \<^verbatim>\<open>str(x)\<close> of a list or dictionary;
  \<^item> \<open>other_lt\<close>: \<^verbatim>\<open>x < y\<close> where a float is compared with a number, or a list with a list.
\<close>

record 'f builtins =
  float_of_int :: "int \<Rightarrow> 'f option"
  float_of_str :: "string \<Rightarrow> 'f option"
  float_str :: "'f \<Rightarrow> string"
  float_as_int :: "'f \<Rightarrow> int option"
  container_str :: "'f pyval \<Rightarrow> string"
  other_lt :: "'f pyval \<Rightarrow> 'f pyval \<Rightarrow> exn + bool"

subsection \<open>Dictionary access\<close>

text \<open>\<^verbatim>\<open>d[k]\<close> on a payload: \<^verbatim>\<open>KeyError\<close> when the key is missing.\<close>

definition getitem :: "'f pydict \<Rightarrow> string \<Rightarrow> exn + 'f pyval" where
  "getitem d k = (case map_of d k of None \<Rightarrow> Inl KeyError | Some v \<Rightarrow> Inr v)"

text \<open>\<^verbatim>\<open>d.get(k)\<close>: \<^verbatim>\<open>None\<close> when the key is missing.\<close>

definition get_or_none :: "'f pydict \<Rightarrow> string \<Rightarrow> 'f pyval" where
  "get_or_none d k = (case map_of d k of None \<Rightarrow> PyNone | Some v \<Rightarrow> v)"

text \<open>
  A key written after \<^verbatim>\<open>**d\<close> in a dictionary display: an existing key keeps its
  position and takes the new value, a new key is appended.
\<close>

primrec setitem :: "string \<Rightarrow> 'f pyval \<Rightarrow> 'f pydict \<Rightarrow> 'f pydict" where
  "setitem k v [] = [(k, v)]"
| "setitem k v (p # ps) = (if fst p = k then (k, v) # ps else p # setitem k v ps)"

subsection \<open>Lookup in the module's constant tables\<close>

text \<open>
  The keys of the constant tables are integers, strings and \<^verbatim>\<open>None\<close>. A lookup hashes
  the key and compares with \<^verbatim>\<open>==\<close>: \<^verbatim>\<open>True\<close> and \<^verbatim>\<open>1.0\<close> find the entry of \<^verbatim>\<open>1\<close>, a list
  or a dictionary is unhashable (\<^verbatim>\<open>TypeError\<close>). \<open>HOther\<close> is a hashable value equal to
  no integer, string or \<^verbatim>\<open>None\<close> (a float that is not integral).
\<close>

datatype hkey = HNone | HInt int | HStr string | HOther

fun py_key :: "'f builtins \<Rightarrow> 'f pyval \<Rightarrow> exn + hkey" where
  "py_key B PyNone = Inr HNone"
| "py_key B (PyBool b) = Inr (HInt (if b then 1 else 0))"
| "py_key B (PyInt n) = Inr (HInt n)"
| "py_key B (PyFloat x) = Inr (case float_as_int B x of Some n \<Rightarrow> HInt n | None \<Rightarrow> HOther)"
| "py_key B (PyStr s) = Inr (HStr s)"
| "py_key B (PyList xs) = Inl TypeError"
| "py_key B (PyDict d) = Inl TypeError"

text \<open>\<^verbatim>\<open>TABLE[x]\<close>\<close>

definition table_getitem :: "'f builtins \<Rightarrow> (hkey \<times> 'a) list \<Rightarrow> 'f pyval \<Rightarrow> exn + 'a" where
  "table_getitem B t x =
     (case py_key B x of
        Inl e \<Rightarrow> Inl e
      | Inr k \<Rightarrow> (case map_of t k of None \<Rightarrow> Inl KeyError | Some v \<Rightarrow> Inr v))"

text \<open>\<^verbatim>\<open>TABLE.get(x, default)\<close>\<close>

definition table_get :: "'f builtins \<Rightarrow> (hkey \<times> 'a) list \<Rightarrow> 'f pyval \<Rightarrow> 'a \<Rightarrow> exn + 'a" where
  "table_get B t x dflt =
     (case py_key B x of
        Inl e \<Rightarrow> Inl e
      | Inr k \<Rightarrow> (case map_of t k of None \<Rightarrow> Inr dflt | Some v \<Rightarrow> Inr v))"

subsection \<open>Text of a value\<close>

text \<open>\<^verbatim>\<open>str(n)\<close> of an integer: decimal digits, a minus sign when negative.\<close>

definition digit_char :: "nat \<Rightarrow> char" where
  "digit_char d = ''0123456789'' ! d"

function str_nat :: "nat \<Rightarrow> string" where
  "str_nat n = (if n < 10 then [digit_char n] else str_nat (n div 10) @ [digit_char (n mod 10)])"
  by pat_completeness auto
termination
  by (relation "measure id") auto

declare str_nat.simps [simp del]

definition str_int :: "int \<Rightarrow> string" where
  "str_int i = (if i < 0 then ''-'' @ str_nat (nat (- i)) else str_nat (nat i))"

text \<open>What an f-string field \<^verbatim>\<open>{x}\<close> renders.\<close>

fun py_str :: "'f builtins \<Rightarrow> 'f pyval \<Rightarrow> string" where
  "py_str B PyNone = ''None''"
| "py_str B (PyBool b) = (if b then ''True'' else ''False'')"
| "py_str B (PyInt n) = str_int n"
| "py_str B (PyFloat x) = float_str B x"
| "py_str B (PyStr s) = s"
| "py_str B (PyList xs) = container_str B (PyList xs)"
| "py_str B (PyDict d) = container_str B (PyDict d)"

section \<open>The constant tables\<close>

definition STATUS :: "(hkey \<times> string) list" where
  "STATUS =
    [(HInt 0, ''OFFLINE''),
     (HInt 1, ''DISCONNECTED''),
     (HInt 2, ''AWAITING_START''),
     (HInt 3, ''CHARGING''),
     (HInt 4, ''COMPLETED''),
     (HInt 5, ''ERROR''),
     (HInt 6, ''READY_TO_CHARGE'')]"

definition NODE_TYPE :: "(hkey \<times> string) list" where
  "NODE_TYPE = [(HInt 1, ''Master''), (HInt 2, ''Extender'')]"

definition PHASE_MODE :: "(hkey \<times> string) list" where
  "PHASE_MODE =
    [(HInt 1, ''Locked to single phase''), (HInt 2, ''Auto''), (HInt 3, ''Locked to three phase'')]"

definition REASON_FOR_NO_CURRENT :: "(hkey \<times> string) list" where
  "REASON_FOR_NO_CURRENT =
    [(HNone, ''No reason''),
     (HInt 0, ''No reason, charging or ready to charge''),
     (HInt 1, ''Charger paused''),
     (HInt 2, ''Charger paused''),
     (HInt 3, ''Charger paused''),
     (HInt 4, ''Charger paused''),
     (HInt 5, ''Charger paused''),
     (HInt 6, ''Charger paused''),
     (HInt 9, ''Error no current''),
     (HInt 50, ''Secondary unit not requesting current or no car connected''),
     (HInt 51, ''Charger paused''),
     (HInt 52, ''Charger paused''),
     (HInt 53, ''Charger disabled''),
     (HInt 54, ''Waiting for schedule/auth''),
     (HInt 55, ''Pending auth'')]"

section \<open>Record types\<close>

text \<open>
  \<^verbatim>\<open>BaseDict\<close> (from \<^verbatim>\<open>.utils\<close>) is a read-only mapping over the dictionary handed to
  its constructor; a record is identified with that dictionary. A constructor that
  raises returns \<open>Inl\<close>.
\<close>

definition ChargerState :: "'f builtins \<Rightarrow> 'f pydict \<Rightarrow> bool \<Rightarrow> exn + 'f pydict" where
  "ChargerState B state raw =
     (if \<not> raw then
        (case getitem state ''chargerOpMode'' of
           Inl e \<Rightarrow> Inl e
         | Inr opmode \<Rightarrow>
        (case table_getitem B STATUS opmode of
           Inl e \<Rightarrow> Inl e
         | Inr status \<Rightarrow>
        (case getitem state ''reasonForNoCurrent'' of
           Inl e \<Rightarrow> Inl e
         | Inr reason \<Rightarrow>
        (case table_get B REASON_FOR_NO_CURRENT reason ''Unknown'' of
           Inl e \<Rightarrow> Inl e
         | Inr label \<Rightarrow>
             Inr (setitem ''reasonForNoCurrent''
                    (PyStr (''('' @ py_str B reason @ '') '' @ label))
                    (setitem ''chargerOpMode'' (PyStr status) state))))))
      else
        (case getitem state ''reasonForNoCurrent'' of
           Inl e \<Rightarrow> Inl e
         | Inr reason \<Rightarrow>
             Inr (setitem ''reasonForNoCurrent''
                    (if reason = PyNone then PyStr ''none'' else reason) state)))"

definition ChargerConfig :: "'f builtins \<Rightarrow> 'f pydict \<Rightarrow> bool \<Rightarrow> exn + 'f pydict" where
  "ChargerConfig B config raw =
     (if \<not> raw then
        (case getitem config ''localNodeType'' of
           Inl e \<Rightarrow> Inl e
         | Inr node \<Rightarrow>
        (case table_getitem B NODE_TYPE node of
           Inl e \<Rightarrow> Inl e
         | Inr node_label \<Rightarrow>
        (case getitem config ''phaseMode'' of
           Inl e \<Rightarrow> Inl e
         | Inr phase \<Rightarrow>
        (case table_getitem B PHASE_MODE phase of
           Inl e \<Rightarrow> Inl e
         | Inr phase_label \<Rightarrow>
             Inr (setitem ''phaseMode'' (PyStr phase_label)
                    (setitem ''localNodeType'' (PyStr node_label) config))))))
      else Inr config)"

definition ChargerSchedule :: "'f pydict \<Rightarrow> 'f pydict" where
  "ChargerSchedule schedule =
     [(''id'', get_or_none schedule ''id''),
      (''chargeStartTime'', get_or_none schedule ''chargeStartTime''),
      (''chargeStopTime'', get_or_none schedule ''chargeStopTime''),
      (''repeat'', get_or_none schedule ''repeat'')]"

text \<open>\<^verbatim>\<open>float(x)\<close>\<close>

fun py_float :: "'f builtins \<Rightarrow> 'f pyval \<Rightarrow> exn + 'f" where
  "py_float B PyNone = Inl TypeError"
| "py_float B (PyBool b) =
     (case float_of_int B (if b then 1 else 0) of None \<Rightarrow> Inl OverflowError | Some x \<Rightarrow> Inr x)"
| "py_float B (PyInt n) =
     (case float_of_int B n of None \<Rightarrow> Inl OverflowError | Some x \<Rightarrow> Inr x)"
| "py_float B (PyFloat x) = Inr x"
| "py_float B (PyStr s) =
     (case float_of_str B s of None \<Rightarrow> Inl ValueError | Some x \<Rightarrow> Inr x)"
| "py_float B (PyList xs) = Inl TypeError"
| "py_float B (PyDict d) = Inl TypeError"

definition ChargerSession :: "'f builtins \<Rightarrow> 'f pydict \<Rightarrow> exn + 'f pydict" where
  "ChargerSession B session =
     (case py_float B (get_or_none session ''kiloWattHours'') of
        Inl e \<Rightarrow> Inl e
      | Inr kwh \<Rightarrow>
          Inr [(''carConnected'', get_or_none session ''carConnected''),
               (''carDisconnected'', get_or_none session ''carDisconnected''),
               (''kiloWattHours'', PyFloat kwh)])"

section \<open>The transport and circuit collaborators\<close>

text \<open>
  The transport object \<^verbatim>\<open>easee\<close> is outside the module. A call either raises or returns
  a response; the body accessors \<^verbatim>\<open>.json()\<close> and \<^verbatim>\<open>.text()\<close> of a response either
  raise or return the decoded body.
\<close>

record 'f response =
  json :: "exn + 'f pyval"
  text_body :: "exn + string"

datatype 'f request =
    Get string
  | Post string "'f pyval option"
  | Put string "'f pyval"
  | Delete string

type_synonym 'f transport = "'f request \<Rightarrow> exn + 'f response"

text \<open>
  The circuit object is outside the module too; the charger calls three of its methods,
  each with the three phase currents, the last two optional.
\<close>

datatype circuit_method = Set_dynamic_current | Set_max_current | Set_max_offline_current

type_synonym 'r circuit = "circuit_method \<Rightarrow> int \<Rightarrow> int option \<Rightarrow> int option \<Rightarrow> exn + 'r"

text \<open>
  What a method of \<^verbatim>\<open>Charger\<close> does to its collaborators is recorded as the list of
  calls it makes, in order; a method returns that list with its outcome.
\<close>

datatype 'f call =
    Transport "'f request"
  | Circuit circuit_method int "int option" "int option"

type_synonym ('f, 'a) outcome = "'f call list \<times> (exn + 'a)"

text \<open>
  \<^verbatim>\<open>Charger\<close>: the fields the methods read. \<open>charger_id\<close> is \<^verbatim>\<open>self.id\<close>,
  \<open>circuit\<close> is \<open>None\<close> when the charger was constructed without a circuit.
\<close>

record ('f, 'r) charger =
  charger_id :: string
  easee :: "'f transport"
  circuit :: "'r circuit option"

section \<open>Methods of Charger\<close>

text \<open>
  A record constructor applied to a decoded body that is not a dictionary:
  \<^verbatim>\<open>.get\<close> does not exist on the other values (\<^verbatim>\<open>AttributeError\<close>).
\<close>

fun ChargerSchedule_of :: "'f pyval \<Rightarrow> exn + 'f pydict" where
  "ChargerSchedule_of (PyDict d) = Inr (ChargerSchedule d)"
| "ChargerSchedule_of v = Inl AttributeError"

fun ChargerSession_of :: "'f builtins \<Rightarrow> 'f pyval \<Rightarrow> exn + 'f pydict" where
  "ChargerSession_of B (PyDict d) = ChargerSession B d"
| "ChargerSession_of B v = Inl AttributeError"

text \<open>
  \<^verbatim>\<open>get_basic_charge_plan\<close>: the \<^verbatim>\<open>try\<close> body is the GET, the JSON decode and the
  construction of the schedule; the handler catches \<^verbatim>\<open>NotFoundException\<close> only and
  returns \<^verbatim>\<open>None\<close>.
\<close>

definition except_NotFound :: "exn \<Rightarrow> exn + 'a option" where
  "except_NotFound e = (if e = NotFoundException then Inr None else Inl e)"

definition get_basic_charge_plan :: "('f, 'r) charger \<Rightarrow> ('f, 'f pydict option) outcome" where
  "get_basic_charge_plan self =
     (let req = Get (''/api/chargers/'' @ charger_id self @ ''/basic_charge_plan'') in
      ([Transport req],
       (case easee self req of
          Inl e \<Rightarrow> except_NotFound e
        | Inr plan \<Rightarrow>
       (case json plan of
          Inl e \<Rightarrow> except_NotFound e
        | Inr plan' \<Rightarrow>
       (case ChargerSchedule_of plan' of
          Inl e \<Rightarrow> except_NotFound e
        | Inr schedule \<Rightarrow> Inr (Some schedule))))))"

text \<open>
  \<^verbatim>\<open>set_access\<close>: the argument is an integer or a string (\<^verbatim>\<open>Union[int, str]\<close>); the
  dictionary subscript is evaluated before the call of \<^verbatim>\<open>put\<close>.
\<close>

datatype access = AccessInt int | AccessStr string

definition access_codes :: "(hkey \<times> int) list" where
  "access_codes =
    [(HInt 1, 1),
     (HInt 2, 2),
     (HInt 3, 3),
     (HStr ''open_for_all'', 1),
     (HStr ''easee_account_required'', 2),
     (HStr ''whitelist'', 3)]"

fun access_value :: "access \<Rightarrow> 'f pyval" where
  "access_value (AccessInt n) = PyInt n"
| "access_value (AccessStr s) = PyStr s"

definition set_access ::
  "'f builtins \<Rightarrow> ('f, 'r) charger \<Rightarrow> access \<Rightarrow> ('f, 'f response) outcome" where
  "set_access B self access =
     (case table_getitem B access_codes (access_value access) of
        Inl e \<Rightarrow> ([], Inl e)
      | Inr code \<Rightarrow>
          (let req = Put (''/api/chargers/'' @ charger_id self @ ''/access'') (PyInt code)
           in ([Transport req], easee self req)))"

text \<open>
  The three methods that delegate to the circuit. Without a circuit the method logs a
  message and falls off its end: it returns \<^verbatim>\<open>None\<close>, here \<open>Inr None\<close>.
\<close>

definition set_dynamic_charger_circuit_current ::
  "('f, 'r) charger \<Rightarrow> int \<Rightarrow> int option \<Rightarrow> int option \<Rightarrow> ('f, 'r option) outcome" where
  "set_dynamic_charger_circuit_current self currentP1 currentP2 currentP3 =
     (case circuit self of
        Some c \<Rightarrow>
          ([Circuit Set_dynamic_current currentP1 currentP2 currentP3],
           (case c Set_dynamic_current currentP1 currentP2 currentP3 of
              Inl e \<Rightarrow> Inl e
            | Inr r \<Rightarrow> Inr (Some r)))
      | None \<Rightarrow> ([], Inr None))"

definition set_max_charger_circuit_current ::
  "('f, 'r) charger \<Rightarrow> int \<Rightarrow> int option \<Rightarrow> int option \<Rightarrow> ('f, 'r option) outcome" where
  "set_max_charger_circuit_current self currentP1 currentP2 currentP3 =
     (case circuit self of
        Some c \<Rightarrow>
          ([Circuit Set_max_current currentP1 currentP2 currentP3],
           (case c Set_max_current currentP1 currentP2 currentP3 of
              Inl e \<Rightarrow> Inl e
            | Inr r \<Rightarrow> Inr (Some r)))
      | None \<Rightarrow> ([], Inr None))"

definition set_max_offline_charger_circuit_current ::
  "('f, 'r) charger \<Rightarrow> int \<Rightarrow> int option \<Rightarrow> int option \<Rightarrow> ('f, 'r option) outcome" where
  "set_max_offline_charger_circuit_current self currentP1 currentP2 currentP3 =
     (case circuit self of
        Some c \<Rightarrow>
          ([Circuit Set_max_offline_current currentP1 currentP2 currentP3],
           (case c Set_max_offline_current currentP1 currentP2 currentP3 of
              Inl e \<Rightarrow> Inl e
            | Inr r \<Rightarrow> Inr (Some r)))
      | None \<Rightarrow> ([], Inr None))"

section \<open>Sessions between two dates\<close>

text \<open>
  \<^verbatim>\<open>x < y\<close>, the only comparison \<^verbatim>\<open>list.sort\<close> makes. Strings compare
  lexicographically, integers and booleans as integers; \<^verbatim>\<open>None\<close> and dictionaries
  compare with nothing, nor do values of different kinds (\<^verbatim>\<open>TypeError\<close>).
\<close>

fun int_like :: "'f pyval \<Rightarrow> int option" where
  "int_like (PyBool b) = Some (if b then 1 else 0)"
| "int_like (PyInt n) = Some n"
| "int_like v = None"

fun is_number :: "'f pyval \<Rightarrow> bool" where
  "is_number (PyBool b) = True"
| "is_number (PyInt n) = True"
| "is_number (PyFloat x) = True"
| "is_number v = False"

fun is_list :: "'f pyval \<Rightarrow> bool" where
  "is_list (PyList xs) = True"
| "is_list v = False"

definition py_lt :: "'f builtins \<Rightarrow> 'f pyval \<Rightarrow> 'f pyval \<Rightarrow> exn + bool" where
  "py_lt B x y =
     (case (x, y) of
        (PyStr a, PyStr b) \<Rightarrow> Inr (a < b)
      | _ \<Rightarrow>
        (case (int_like x, int_like y) of
           (Some a, Some b) \<Rightarrow> Inr (a < b)
         | _ \<Rightarrow>
             if (is_number x \<and> is_number y) \<or> (is_list x \<and> is_list y)
             then other_lt B x y
             else Inl TypeError))"

text \<open>Applying a function that may raise to each element, left to right.\<close>

fun map_exn :: "('a \<Rightarrow> exn + 'b) \<Rightarrow> 'a list \<Rightarrow> exn + 'b list" where
  "map_exn f [] = Inr []"
| "map_exn f (x # xs) =
     (case f x of
        Inl e \<Rightarrow> Inl e
      | Inr y \<Rightarrow> (case map_exn f xs of Inl e \<Rightarrow> Inl e | Inr ys \<Rightarrow> Inr (y # ys)))"

text \<open>
  \<^verbatim>\<open>list.sort(key=..., reverse=...)\<close>: the keys are computed first, then the pairs of
  key and element are sorted by \<^verbatim>\<open><\<close> on the keys. The library reverses the list
  before and after an ascending stable sort when \<^verbatim>\<open>reverse\<close> is set. The ascending
  sort is written as insertion after the elements that are not greater; the library's
  merge sort yields the same list and makes other comparisons on the way.
\<close>

fun insert_pair ::
  "('k \<Rightarrow> 'k \<Rightarrow> exn + bool) \<Rightarrow> 'k \<times> 'a \<Rightarrow> ('k \<times> 'a) list \<Rightarrow> exn + ('k \<times> 'a) list" where
  "insert_pair lt p [] = Inr [p]"
| "insert_pair lt p (q # qs) =
     (case lt (fst p) (fst q) of
        Inl e \<Rightarrow> Inl e
      | Inr True \<Rightarrow> Inr (p # q # qs)
      | Inr False \<Rightarrow>
          (case insert_pair lt p qs of Inl e \<Rightarrow> Inl e | Inr r \<Rightarrow> Inr (q # r)))"

fun sort_pairs ::
  "('k \<Rightarrow> 'k \<Rightarrow> exn + bool) \<Rightarrow> ('k \<times> 'a) list \<Rightarrow> ('k \<times> 'a) list \<Rightarrow> exn + ('k \<times> 'a) list" where
  "sort_pairs lt acc [] = Inr acc"
| "sort_pairs lt acc (p # ps) =
     (case insert_pair lt p acc of
        Inl e \<Rightarrow> Inl e
      | Inr acc' \<Rightarrow> sort_pairs lt acc' ps)"

definition list_sort ::
  "('k \<Rightarrow> 'k \<Rightarrow> exn + bool) \<Rightarrow> ('a \<Rightarrow> exn + 'k) \<Rightarrow> bool \<Rightarrow> 'a list \<Rightarrow> exn + 'a list" where
  "list_sort lt key reverse xs =
     (case map_exn key xs of
        Inl e \<Rightarrow> Inl e
      | Inr ks \<Rightarrow>
          (let ps = zip ks xs in
           (case sort_pairs lt [] (if reverse then rev ps else ps) of
              Inl e \<Rightarrow> Inl e
            | Inr qs \<Rightarrow> Inr (map snd (if reverse then rev qs else qs)))))"

text \<open>
  Iterating over a decoded body: a list yields its elements, a dictionary its keys, a
  string its characters; nothing else can be iterated (\<^verbatim>\<open>TypeError\<close>).
\<close>

fun py_iter :: "'f pyval \<Rightarrow> exn + 'f pyval list" where
  "py_iter (PyList xs) = Inr xs"
| "py_iter (PyDict d) = Inr (map (\<lambda>p. PyStr (fst p)) d)"
| "py_iter (PyStr s) = Inr (map (\<lambda>c. PyStr [c]) s)"
| "py_iter v = Inl TypeError"

text \<open>
  \<^verbatim>\<open>get_sessions_between_dates\<close>; \<open>from_date\<close> and \<open>to_date\<close> are the texts
  \<^verbatim>\<open>from_date.isoformat()\<close> and \<^verbatim>\<open>to_date.isoformat()\<close>.
\<close>

definition get_sessions_between_dates ::
  "'f builtins \<Rightarrow> ('f, 'r) charger \<Rightarrow> string \<Rightarrow> string \<Rightarrow> ('f, 'f pydict list) outcome" where
  "get_sessions_between_dates B self from_date to_date =
     (let req = Get (''/api/sessions/charger/'' @ charger_id self @ ''/sessions/'' @
                     from_date @ ''/'' @ to_date) in
      ([Transport req],
       (case easee self req of
          Inl e \<Rightarrow> Inl e
        | Inr resp \<Rightarrow>
       (case json resp of
          Inl e \<Rightarrow> Inl e
        | Inr body \<Rightarrow>
       (case py_iter body of
          Inl e \<Rightarrow> Inl e
        | Inr items \<Rightarrow>
       (case map_exn (ChargerSession_of B) items of
          Inl e \<Rightarrow> Inl e
        | Inr sessions \<Rightarrow>
            list_sort (py_lt B) (\<lambda>x. getitem x ''carConnected'') True sessions))))))"

section \<open>Vocabulary of the statements\<close>

text \<open>A value that cannot be a dictionary key.\<close>

fun unhashable :: "'f pyval \<Rightarrow> bool" where
  "unhashable (PyList xs) = True"
| "unhashable (PyDict d) = True"
| "unhashable v = False"

text \<open>The text of a string value, and the connection time of a session record.\<close>

fun text_of :: "'f pyval \<Rightarrow> string" where
  "text_of (PyStr s) = s"
| "text_of v = []"

definition connected_at :: "'f pydict \<Rightarrow> string" where
  "connected_at s = text_of (get_or_none s ''carConnected'')"

text \<open>
  One interpreter to evaluate the model on concrete payloads: a float is represented by
  its text, and of all strings only \<^verbatim>\<open>10.5\<close> is taken to denote a float.
\<close>

definition sample_builtins :: "string builtins" where
  "sample_builtins =
     \<lparr>float_of_int = (\<lambda>n. Some (str_int n @ ''.0'')),
      float_of_str = (\<lambda>s. if s = ''10.5'' then Some s else None),
      float_str = (\<lambda>x. x),
      float_as_int = (\<lambda>x. None),
      container_str = (\<lambda>v. ''...''),
      other_lt = (\<lambda>x y. Inl TypeError)\<rparr>"

section \<open>Facts about the building blocks\<close>

lemma map_of_setitem: "map_of (setitem k v d) = (map_of d)(k \<mapsto> v)"
  by (induct d) auto

lemma keys_setitem: "fst ` set (setitem k v d) = insert k (fst ` set d)"
  by (induct d) auto

lemma getitem_Some: "map_of d k = Some v \<Longrightarrow> getitem d k = Inr v"
  by (simp add: getitem_def)

lemma getitem_None: "map_of d k = None \<Longrightarrow> getitem d k = Inl KeyError"
  by (simp add: getitem_def)

lemma STATUS_int:
  "table_getitem B STATUS (PyInt n) =
     (if 0 \<le> n \<and> n \<le> 6
      then Inr ([''OFFLINE'', ''DISCONNECTED'', ''AWAITING_START'', ''CHARGING'',
                 ''COMPLETED'', ''ERROR'', ''READY_TO_CHARGE''] ! nat n)
      else Inl KeyError)"
proof (cases "0 \<le> n \<and> n \<le> 6")
  case True
  then have "n = 0 \<or> n = 1 \<or> n = 2 \<or> n = 3 \<or> n = 4 \<or> n = 5 \<or> n = 6" by arith
  then show ?thesis
    by (elim disjE) (simp_all add: table_getitem_def STATUS_def)
next
  case False
  then show ?thesis
    by (auto simp add: table_getitem_def STATUS_def)
qed

lemma NODE_TYPE_int:
  "table_getitem B NODE_TYPE (PyInt a) =
     (if a = 1 \<or> a = 2 then Inr ([''Master'', ''Extender''] ! nat (a - 1)) else Inl KeyError)"
  by (auto simp add: table_getitem_def NODE_TYPE_def)

lemma PHASE_MODE_int:
  "table_getitem B PHASE_MODE (PyInt b) =
     (if b = 1 \<or> b = 2 \<or> b = 3
      then Inr ([''Locked to single phase'', ''Auto'', ''Locked to three phase''] ! nat (b - 1))
      else Inl KeyError)"
  by (auto simp add: table_getitem_def PHASE_MODE_def)

lemma table_get_total:
  "py_key B x = Inr k \<Longrightarrow>
   table_get B t x dflt = Inr (case map_of t k of None \<Rightarrow> dflt | Some v \<Rightarrow> v)"
  by (simp add: table_get_def split: option.splits)

lemma ChargerState_decoded:
  assumes "map_of state ''chargerOpMode'' = Some opmode"
    and "table_getitem B STATUS opmode = Inr status"
    and "map_of state ''reasonForNoCurrent'' = Some reason"
    and "py_key B reason = Inr k"
  shows "ChargerState B state False =
     Inr (setitem ''reasonForNoCurrent''
            (PyStr (''('' @ py_str B reason @ '') '' @
               (case map_of REASON_FOR_NO_CURRENT k of None \<Rightarrow> ''Unknown'' | Some l \<Rightarrow> l)))
            (setitem ''chargerOpMode'' (PyStr status) state))"
  using assms by (simp add: ChargerState_def getitem_def table_get_total)

lemma ChargerState_raw:
  assumes "map_of state ''reasonForNoCurrent'' = Some reason"
  shows "ChargerState B state True =
     Inr (setitem ''reasonForNoCurrent'' (if reason = PyNone then PyStr ''none'' else reason) state)"
  using assms by (simp add: ChargerState_def getitem_def)

lemma map_of_Some_key: "map_of d k = Some v \<Longrightarrow> k \<in> fst ` set d"
  by (metis domI dom_map_of_conv_image_fst)

lemma ChargerConfig_decoded:
  assumes "map_of config ''localNodeType'' = Some node"
    and "table_getitem B NODE_TYPE node = Inr node_label"
    and "map_of config ''phaseMode'' = Some phase"
    and "table_getitem B PHASE_MODE phase = Inr phase_label"
  shows "ChargerConfig B config False =
     Inr (setitem ''phaseMode'' (PyStr phase_label)
            (setitem ''localNodeType'' (PyStr node_label) config))"
  using assms by (simp add: ChargerConfig_def getitem_def)

lemma keys_setitem_present:
  "map_of d k = Some w \<Longrightarrow> fst ` set (setitem k v d) = fst ` set d"
  using map_of_Some_key [of d k w] by (simp add: keys_setitem insert_absorb)

lemma ChargerState_keys:
  assumes "ChargerState B state raw = Inr d"
  shows "fst ` set d = fst ` set state"
proof (cases raw)
  case True
  with assms obtain reason v where r: "map_of state ''reasonForNoCurrent'' = Some reason"
    and d: "d = setitem ''reasonForNoCurrent'' v state"
    by (auto simp add: ChargerState_def getitem_def split: option.splits sum.splits)
  show ?thesis
    unfolding d by (rule keys_setitem_present [OF r])
next
  case False
  with assms obtain opmode reason v w where o: "map_of state ''chargerOpMode'' = Some opmode"
    and r: "map_of state ''reasonForNoCurrent'' = Some reason"
    and d: "d = setitem ''reasonForNoCurrent'' v (setitem ''chargerOpMode'' w state)"
    by (auto simp add: ChargerState_def getitem_def split: option.splits sum.splits)
  have "map_of (setitem ''chargerOpMode'' w state) ''reasonForNoCurrent'' = Some reason"
    using r by (simp add: map_of_setitem)
  then have "fst ` set d = fst ` set (setitem ''chargerOpMode'' w state)"
    unfolding d by (rule keys_setitem_present)
  also have "\<dots> = fst ` set state"
    by (rule keys_setitem_present [OF o])
  finally show ?thesis .
qed

lemma ChargerConfig_keys:
  assumes "ChargerConfig B config raw = Inr d"
  shows "fst ` set d = fst ` set config"
proof (cases raw)
  case True
  with assms show ?thesis by (simp add: ChargerConfig_def)
next
  case False
  with assms obtain node phase v w where n: "map_of config ''localNodeType'' = Some node"
    and p: "map_of config ''phaseMode'' = Some phase"
    and d: "d = setitem ''phaseMode'' v (setitem ''localNodeType'' w config)"
    by (auto simp add: ChargerConfig_def getitem_def split: option.splits sum.splits)
  have "map_of (setitem ''localNodeType'' w config) ''phaseMode'' = Some phase"
    using p by (simp add: map_of_setitem)
  then have "fst ` set d = fst ` set (setitem ''localNodeType'' w config)"
    unfolding d by (rule keys_setitem_present)
  also have "\<dots> = fst ` set config"
    by (rule keys_setitem_present [OF n])
  finally show ?thesis .
qed

section \<open>Decoding of the coded fields\<close>

text \<open>
  C2, at a concrete payload: with \<^verbatim>\<open>reasonForNoCurrent\<close> null the decoded record holds
  the text \<^verbatim>\<open>(None) No reason\<close>, which is not \<^verbatim>\<open>No reason\<close>: the f-string renders
  the code in parentheses before the label also when the code is \<^verbatim>\<open>None\<close>.
\<close>

theorem null_reason_counterexample:
  "map_of [(''chargerOpMode'', PyInt 3), (''reasonForNoCurrent'', PyNone)] ''reasonForNoCurrent''
     = Some PyNone
   \<and> ChargerState sample_builtins
        [(''chargerOpMode'', PyInt 3), (''reasonForNoCurrent'', PyNone)] False
     = Inr [(''chargerOpMode'', PyStr ''CHARGING''),
            (''reasonForNoCurrent'', PyStr ''(None) No reason'')]
   \<and> PyStr ''(None) No reason'' \<noteq> (PyStr ''No reason'' :: string pyval)"
  by (simp add: ChargerState_def getitem_def table_getitem_def table_get_def STATUS_def
        REASON_FOR_NO_CURRENT_def)

text \<open>
  C2, as the code has it: for a payload whose \<^verbatim>\<open>reasonForNoCurrent\<close> is null, decoded mode
  yields \<^verbatim>\<open>(None) No reason\<close> for that field (when \<^verbatim>\<open>chargerOpMode\<close> decodes, so that a
  record is constructed), and raw mode yields the literal \<^verbatim>\<open>none\<close>.
\<close>

theorem null_reason_text:
  assumes "map_of state ''reasonForNoCurrent'' = Some PyNone"
  shows "(map_of state ''chargerOpMode'' = Some opmode \<and> table_getitem B STATUS opmode = Inr status
            \<longrightarrow> (\<exists>d. ChargerState B state False = Inr d
                   \<and> map_of d ''reasonForNoCurrent'' = Some (PyStr ''(None) No reason'')))
       \<and> (\<exists>d. ChargerState B state True = Inr d
                   \<and> map_of d ''reasonForNoCurrent'' = Some (PyStr ''none''))"
proof (intro conjI impI)
  assume op: "map_of state ''chargerOpMode'' = Some opmode \<and> table_getitem B STATUS opmode = Inr status"
  have k: "py_key B PyNone = Inr HNone" by simp
  show "\<exists>d. ChargerState B state False = Inr d
          \<and> map_of d ''reasonForNoCurrent'' = Some (PyStr ''(None) No reason'')"
    using ChargerState_decoded [OF conjunct1 [OF op] conjunct2 [OF op] assms k]
    by (simp add: map_of_setitem REASON_FOR_NO_CURRENT_def)
next
  show "\<exists>d. ChargerState B state True = Inr d
          \<and> map_of d ''reasonForNoCurrent'' = Some (PyStr ''none'')"
    using ChargerState_raw [OF assms, of B] by (simp add: map_of_setitem)
qed

text \<open>
  C2 at the payload \<^verbatim>\<open>{"chargerOpMode": 3, "reasonForNoCurrent": null}\<close>.
\<close>

theorem null_reason_text_witness:
  "(\<exists>d. ChargerState sample_builtins
           [(''chargerOpMode'', PyInt 3), (''reasonForNoCurrent'', PyNone)] False = Inr d
        \<and> map_of d ''reasonForNoCurrent'' = Some (PyStr ''(None) No reason''))
   \<and> (\<exists>d. ChargerState sample_builtins
           [(''chargerOpMode'', PyInt 3), (''reasonForNoCurrent'', PyNone)] True = Inr d
        \<and> map_of d ''reasonForNoCurrent'' = Some (PyStr ''none''))"
  using null_reason_text [of "[(''chargerOpMode'', PyInt 3), (''reasonForNoCurrent'', PyNone)]"
      "PyInt 3" sample_builtins "''CHARGING''"]
  by (simp add: STATUS_int)

lemma opmode_decoding:
  assumes "map_of state ''chargerOpMode'' = Some (PyInt n)"
  shows
    "(0 \<le> n \<and> n \<le> 6 \<and> map_of state ''reasonForNoCurrent'' = Some reason \<and> \<not> unhashable reason
        \<longrightarrow> (\<exists>d. ChargerState B state False = Inr d
               \<and> map_of d ''chargerOpMode'' =
                   Some (PyStr ([''OFFLINE'', ''DISCONNECTED'', ''AWAITING_START'', ''CHARGING'',
                                 ''COMPLETED'', ''ERROR'', ''READY_TO_CHARGE''] ! nat n))))
     \<and> (n < 0 \<or> 6 < n \<longrightarrow> ChargerState B state False = Inl KeyError)"
proof (intro conjI impI)
  assume h: "0 \<le> n \<and> n \<le> 6 \<and> map_of state ''reasonForNoCurrent'' = Some reason \<and> \<not> unhashable reason"
  then obtain k where k: "py_key B reason = Inr k"
    by (cases reason) simp_all
  from h have s: "table_getitem B STATUS (PyInt n) =
      Inr ([''OFFLINE'', ''DISCONNECTED'', ''AWAITING_START'', ''CHARGING'',
            ''COMPLETED'', ''ERROR'', ''READY_TO_CHARGE''] ! nat n)"
    by (simp add: STATUS_int)
  from h have r: "map_of state ''reasonForNoCurrent'' = Some reason" by simp
  show "\<exists>d. ChargerState B state False = Inr d
          \<and> map_of d ''chargerOpMode'' =
              Some (PyStr ([''OFFLINE'', ''DISCONNECTED'', ''AWAITING_START'', ''CHARGING'',
                            ''COMPLETED'', ''ERROR'', ''READY_TO_CHARGE''] ! nat n))"
    using ChargerState_decoded [OF assms s r k]
    by (simp add: map_of_setitem)
next
  assume "n < 0 \<or> 6 < n"
  then have "table_getitem B STATUS (PyInt n) = Inl KeyError"
    by (auto simp add: STATUS_int)
  then show "ChargerState B state False = Inl KeyError"
    using assms by (simp add: ChargerState_def getitem_def)
qed

lemma config_decoding:
  assumes "map_of config ''localNodeType'' = Some (PyInt a)"
    and "map_of config ''phaseMode'' = Some (PyInt b)"
  shows
    "((a = 1 \<or> a = 2) \<and> (b = 1 \<or> b = 2 \<or> b = 3)
        \<longrightarrow> (\<exists>d. ChargerConfig B config False = Inr d
               \<and> map_of d ''localNodeType'' = Some (PyStr ([''Master'', ''Extender''] ! nat (a - 1)))
               \<and> map_of d ''phaseMode'' =
                   Some (PyStr ([''Locked to single phase'', ''Auto'', ''Locked to three phase'']
                                 ! nat (b - 1)))))
     \<and> (\<not> (a = 1 \<or> a = 2) \<or> \<not> (b = 1 \<or> b = 2 \<or> b = 3)
        \<longrightarrow> ChargerConfig B config False = Inl KeyError)"
proof (intro conjI impI)
  assume h: "(a = 1 \<or> a = 2) \<and> (b = 1 \<or> b = 2 \<or> b = 3)"
  then have na: "table_getitem B NODE_TYPE (PyInt a) = Inr ([''Master'', ''Extender''] ! nat (a - 1))"
    by (simp only: NODE_TYPE_int if_True)
  from h have pb: "table_getitem B PHASE_MODE (PyInt b) =
      Inr ([''Locked to single phase'', ''Auto'', ''Locked to three phase''] ! nat (b - 1))"
    by (simp only: PHASE_MODE_int if_True)
  show "\<exists>d. ChargerConfig B config False = Inr d
          \<and> map_of d ''localNodeType'' = Some (PyStr ([''Master'', ''Extender''] ! nat (a - 1)))
          \<and> map_of d ''phaseMode'' =
              Some (PyStr ([''Locked to single phase'', ''Auto'', ''Locked to three phase'']
                            ! nat (b - 1)))"
    using ChargerConfig_decoded [OF assms(1) na assms(2) pb]
    by (simp add: map_of_setitem)
next
  assume h: "\<not> (a = 1 \<or> a = 2) \<or> \<not> (b = 1 \<or> b = 2 \<or> b = 3)"
  show "ChargerConfig B config False = Inl KeyError"
    using h assms
    by (auto simp add: ChargerConfig_def getitem_def NODE_TYPE_int PHASE_MODE_int split: sum.splits)
qed

text \<open>
  C3: in decoded mode an operating-mode code from 0 to 6 becomes the label of the table,
  in the order OFFLINE, DISCONNECTED, AWAITING_START, CHARGING, COMPLETED, ERROR,
  READY_TO_CHARGE (the record is constructed when the reason field is present and
  hashable), and any other integer code raises \<^verbatim>\<open>KeyError\<close>; in a decoded
  \<^verbatim>\<open>ChargerConfig\<close> the codes of \<^verbatim>\<open>localNodeType\<close> (1, 2) and \<^verbatim>\<open>phaseMode\<close> (1, 2, 3)
  become their labels, and an unknown code in either raises \<^verbatim>\<open>KeyError\<close>.
\<close>

theorem decoded_enum_tables:
  "(map_of state ''chargerOpMode'' = Some (PyInt n) \<longrightarrow>
      (0 \<le> n \<and> n \<le> 6 \<and> map_of state ''reasonForNoCurrent'' = Some reason \<and> \<not> unhashable reason
        \<longrightarrow> (\<exists>d. ChargerState B state False = Inr d
               \<and> map_of d ''chargerOpMode'' =
                   Some (PyStr ([''OFFLINE'', ''DISCONNECTED'', ''AWAITING_START'', ''CHARGING'',
                                 ''COMPLETED'', ''ERROR'', ''READY_TO_CHARGE''] ! nat n))))
      \<and> (n < 0 \<or> 6 < n \<longrightarrow> ChargerState B state False = Inl KeyError))
   \<and> (map_of config ''localNodeType'' = Some (PyInt a)
        \<and> map_of config ''phaseMode'' = Some (PyInt b) \<longrightarrow>
      ((a = 1 \<or> a = 2) \<and> (b = 1 \<or> b = 2 \<or> b = 3)
        \<longrightarrow> (\<exists>d. ChargerConfig B config False = Inr d
               \<and> map_of d ''localNodeType'' = Some (PyStr ([''Master'', ''Extender''] ! nat (a - 1)))
               \<and> map_of d ''phaseMode'' =
                   Some (PyStr ([''Locked to single phase'', ''Auto'', ''Locked to three phase'']
                                 ! nat (b - 1)))))
      \<and> (\<not> (a = 1 \<or> a = 2) \<or> \<not> (b = 1 \<or> b = 2 \<or> b = 3)
        \<longrightarrow> ChargerConfig B config False = Inl KeyError))"
proof (rule conjI)
  show "map_of state ''chargerOpMode'' = Some (PyInt n) \<longrightarrow>
      (0 \<le> n \<and> n \<le> 6 \<and> map_of state ''reasonForNoCurrent'' = Some reason \<and> \<not> unhashable reason
        \<longrightarrow> (\<exists>d. ChargerState B state False = Inr d
               \<and> map_of d ''chargerOpMode'' =
                   Some (PyStr ([''OFFLINE'', ''DISCONNECTED'', ''AWAITING_START'', ''CHARGING'',
                                 ''COMPLETED'', ''ERROR'', ''READY_TO_CHARGE''] ! nat n))))
      \<and> (n < 0 \<or> 6 < n \<longrightarrow> ChargerState B state False = Inl KeyError)"
    by (rule impI) (rule opmode_decoding)
next
  show "map_of config ''localNodeType'' = Some (PyInt a)
        \<and> map_of config ''phaseMode'' = Some (PyInt b) \<longrightarrow>
      ((a = 1 \<or> a = 2) \<and> (b = 1 \<or> b = 2 \<or> b = 3)
        \<longrightarrow> (\<exists>d. ChargerConfig B config False = Inr d
               \<and> map_of d ''localNodeType'' = Some (PyStr ([''Master'', ''Extender''] ! nat (a - 1)))
               \<and> map_of d ''phaseMode'' =
                   Some (PyStr ([''Locked to single phase'', ''Auto'', ''Locked to three phase'']
                                 ! nat (b - 1)))))
      \<and> (\<not> (a = 1 \<or> a = 2) \<or> \<not> (b = 1 \<or> b = 2 \<or> b = 3)
        \<longrightarrow> ChargerConfig B config False = Inl KeyError)"
  proof (rule impI)
    assume h: "map_of config ''localNodeType'' = Some (PyInt a)
        \<and> map_of config ''phaseMode'' = Some (PyInt b)"
    show "((a = 1 \<or> a = 2) \<and> (b = 1 \<or> b = 2 \<or> b = 3)
        \<longrightarrow> (\<exists>d. ChargerConfig B config False = Inr d
               \<and> map_of d ''localNodeType'' = Some (PyStr ([''Master'', ''Extender''] ! nat (a - 1)))
               \<and> map_of d ''phaseMode'' =
                   Some (PyStr ([''Locked to single phase'', ''Auto'', ''Locked to three phase'']
                                 ! nat (b - 1)))))
      \<and> (\<not> (a = 1 \<or> a = 2) \<or> \<not> (b = 1 \<or> b = 2 \<or> b = 3)
        \<longrightarrow> ChargerConfig B config False = Inl KeyError)"
      by (rule config_decoding [OF conjunct1 [OF h] conjunct2 [OF h]])
  qed
qed

text \<open>
  C3 at operating modes 6 and 7, and at the configurations (2, 3) and (1, 0).
\<close>

theorem decoded_enum_tables_witness:
  "(\<exists>d. ChargerState sample_builtins
           [(''chargerOpMode'', PyInt 6), (''reasonForNoCurrent'', PyInt 0)] False = Inr d
        \<and> map_of d ''chargerOpMode'' = Some (PyStr ''READY_TO_CHARGE''))
   \<and> ChargerState sample_builtins
        [(''chargerOpMode'', PyInt 7), (''reasonForNoCurrent'', PyInt 0)] False = Inl KeyError
   \<and> (\<exists>d. ChargerConfig sample_builtins
           [(''localNodeType'', PyInt 2), (''phaseMode'', PyInt 3)] False = Inr d
        \<and> map_of d ''localNodeType'' = Some (PyStr ''Extender'')
        \<and> map_of d ''phaseMode'' = Some (PyStr ''Locked to three phase''))
   \<and> ChargerConfig sample_builtins
        [(''localNodeType'', PyInt 1), (''phaseMode'', PyInt 0)] False = Inl KeyError"
  using decoded_enum_tables [where state = "[(''chargerOpMode'', PyInt 6), (''reasonForNoCurrent'', PyInt 0)]"
      and n = 6 and config = "[(''localNodeType'', PyInt 2), (''phaseMode'', PyInt 3)]"
      and a = 2 and b = 3 and reason = "PyInt 0" and B = sample_builtins]
    decoded_enum_tables [where state = "[(''chargerOpMode'', PyInt 7), (''reasonForNoCurrent'', PyInt 0)]"
      and n = 7 and config = "[(''localNodeType'', PyInt 1), (''phaseMode'', PyInt 0)]"
      and a = 1 and b = 0 and reason = "PyInt 0" and B = sample_builtins]
  by simp

text \<open>
  The decimal text of an integer determines the integer, and it holds no parenthesis:
  the code can be read back from the text \<^verbatim>\<open>(code) label\<close>.
\<close>

lemma digit_char_inj:
  assumes "a < 10" "b < 10" "digit_char a = digit_char b"
  shows "a = b"
proof -
  have a: "a = 0 \<or> a = 1 \<or> a = 2 \<or> a = 3 \<or> a = 4 \<or> a = 5 \<or> a = 6 \<or> a = 7 \<or> a = 8 \<or> a = 9"
    using assms(1) by arith
  have b: "b = 0 \<or> b = 1 \<or> b = 2 \<or> b = 3 \<or> b = 4 \<or> b = 5 \<or> b = 6 \<or> b = 7 \<or> b = 8 \<or> b = 9"
    using assms(2) by arith
  from a b assms(3) show ?thesis
    by (elim disjE) (simp_all add: digit_char_def)
qed

lemma digit_char_not_minus: "d < 10 \<Longrightarrow> digit_char d \<noteq> CHR ''-''"
proof -
  assume "d < 10"
  then have "d = 0 \<or> d = 1 \<or> d = 2 \<or> d = 3 \<or> d = 4 \<or> d = 5 \<or> d = 6 \<or> d = 7 \<or> d = 8 \<or> d = 9"
    by arith
  then show ?thesis
    by (elim disjE) (simp_all add: digit_char_def)
qed

lemma str_nat_not_Nil: "str_nat n \<noteq> []"
  by (subst str_nat.simps) simp

lemma str_nat_digits: "CHR ''-'' \<notin> set (str_nat n)"
proof (induction n rule: str_nat.induct)
  case (1 n)
  show ?case
  proof (cases "n < 10")
    case True
    then show ?thesis
      using digit_char_not_minus [of n] by (subst str_nat.simps) auto
  next
    case False
    have "n mod 10 < 10" by simp
    then have "digit_char (n mod 10) \<noteq> CHR ''-''" by (rule digit_char_not_minus)
    with False "1.IH" show ?thesis
      by (subst str_nat.simps) auto
  qed
qed

lemma str_nat_inj: "str_nat n = str_nat m \<Longrightarrow> n = m"
proof (induction n arbitrary: m rule: str_nat.induct)
  case (1 n)
  show ?case
  proof (cases "n < 10")
    case n: True
    show ?thesis
    proof (cases "m < 10")
      case True
      with n "1.prems" show ?thesis
        using digit_char_inj [of n m] by (simp add: str_nat.simps [of n] str_nat.simps [of m])
    next
      case False
      with n "1.prems" have "[digit_char n] = str_nat (m div 10) @ [digit_char (m mod 10)]"
        by (simp add: str_nat.simps [of n] str_nat.simps [of m])
      then have "str_nat (m div 10) = []" by simp
      then show ?thesis using str_nat_not_Nil by blast
    qed
  next
    case n: False
    show ?thesis
    proof (cases "m < 10")
      case True
      with n "1.prems" have "str_nat (n div 10) @ [digit_char (n mod 10)] = [digit_char m]"
        by (simp add: str_nat.simps [of n] str_nat.simps [of m])
      then have "str_nat (n div 10) = []" by simp
      then show ?thesis using str_nat_not_Nil by blast
    next
      case False
      with n "1.prems" have e: "str_nat (n div 10) = str_nat (m div 10)"
        and d: "digit_char (n mod 10) = digit_char (m mod 10)"
        by (simp_all add: str_nat.simps [of n] str_nat.simps [of m])
      from "1.IH" [OF n e] have q: "n div 10 = m div 10" .
      have "n mod 10 = m mod 10"
        using digit_char_inj [OF _ _ d] by simp
      with q show ?thesis
        by (metis div_mult_mod_eq)
    qed
  qed
qed

lemma str_int_inj: "str_int a = str_int b \<Longrightarrow> a = b"
proof -
  assume e: "str_int a = str_int b"
  have neg: "\<And>x y. x < 0 \<Longrightarrow> \<not> y < 0 \<Longrightarrow> str_int x \<noteq> str_int y"
  proof
    fix x y :: int assume "x < 0" "\<not> y < 0" "str_int x = str_int y"
    then have "CHR ''-'' # str_nat (nat (- x)) = str_nat (nat y)"
      by (simp add: str_int_def)
    then have "CHR ''-'' \<in> set (str_nat (nat y))"
      by (metis list.set_intros(1))
    then show False using str_nat_digits by blast
  qed
  show "a = b"
  proof (cases "a < 0")
    case a: True
    show ?thesis
    proof (cases "b < 0")
      case True
      with a e have "str_nat (nat (- a)) = str_nat (nat (- b))" by (simp add: str_int_def)
      then have "nat (- a) = nat (- b)" by (rule str_nat_inj)
      with a True show ?thesis by simp
    next
      case False
      with a e neg show ?thesis by blast
    qed
  next
    case a: False
    show ?thesis
    proof (cases "b < 0")
      case True
      with a e neg [of b a] show ?thesis by simp
    next
      case False
      with a e have "str_nat (nat a) = str_nat (nat b)" by (simp add: str_int_def)
      then have "nat a = nat b" by (rule str_nat_inj)
      with a False show ?thesis by simp
    qed
  qed
qed

lemma digit_char_in: "d < 10 \<Longrightarrow> digit_char d \<in> set ''0123456789''"
proof -
  assume "d < 10"
  then have "d = 0 \<or> d = 1 \<or> d = 2 \<or> d = 3 \<or> d = 4 \<or> d = 5 \<or> d = 6 \<or> d = 7 \<or> d = 8 \<or> d = 9"
    by arith
  then show ?thesis
    by (elim disjE) (simp_all add: digit_char_def)
qed

lemma str_nat_chars: "set (str_nat n) \<subseteq> set ''0123456789''"
proof (induction n rule: str_nat.induct)
  case (1 n)
  show ?case
  proof (cases "n < 10")
    case True
    then show ?thesis
      using digit_char_in [of n] by (subst str_nat.simps) simp
  next
    case False
    have "digit_char (n mod 10) \<in> set ''0123456789''"
      by (rule digit_char_in) simp
    with False "1.IH" show ?thesis
      by (subst str_nat.simps) simp
  qed
qed

lemma str_int_no_paren: "CHR '')'' \<notin> set (str_int n)"
  using str_nat_chars [of "nat n"] str_nat_chars [of "nat (- n)"]
  by (auto simp add: str_int_def)

lemma append_sep_eq:
  "c \<notin> set xs \<Longrightarrow> c \<notin> set ys \<Longrightarrow> xs @ c # r = ys @ c # r' \<Longrightarrow> xs = ys"
proof (induction xs arbitrary: ys)
  case Nil
  then show ?case by (cases ys) auto
next
  case (Cons x xs)
  then show ?case by (cases ys) auto
qed

lemma reason_text_inj:
  "''('' @ str_int m @ '') '' @ l = ''('' @ str_int n @ '') '' @ l' \<Longrightarrow> m = n"
proof -
  assume "''('' @ str_int m @ '') '' @ l = ''('' @ str_int n @ '') '' @ l'"
  then have "str_int m @ CHR '')'' # (CHR '' '' # l) = str_int n @ CHR '')'' # (CHR '' '' # l')"
    by simp
  then have "str_int m = str_int n"
    using append_sep_eq [OF str_int_no_paren str_int_no_paren] by blast
  then show "m = n" by (rule str_int_inj)
qed

text \<open>
  C4: for every integer reason code \<open>n\<close>, decoded mode yields the text
  \<^verbatim>\<open>(n) label\<close>, where the label is the entry of the reason table when \<open>n\<close> is a key of
  it and \<^verbatim>\<open>Unknown\<close> otherwise; the lookup of the reason never raises (the record is
  constructed whenever \<^verbatim>\<open>chargerOpMode\<close> decodes); and the text keeps the code: two
  texts of this form are equal only if their codes are.
\<close>

theorem reason_code_text:
  assumes "map_of state ''reasonForNoCurrent'' = Some (PyInt n)"
    and "map_of state ''chargerOpMode'' = Some opmode"
    and "table_getitem B STATUS opmode = Inr status"
  shows "(\<exists>d. ChargerState B state False = Inr d
           \<and> map_of d ''reasonForNoCurrent'' =
               Some (PyStr (''('' @ str_int n @ '') '' @
                 (case map_of REASON_FOR_NO_CURRENT (HInt n) of
                    Some label \<Rightarrow> label
                  | None \<Rightarrow> ''Unknown''))))
         \<and> (\<forall>m l l'. ''('' @ str_int m @ '') '' @ l = ''('' @ str_int n @ '') '' @ l'
                \<longrightarrow> m = n)"
proof (intro conjI allI impI)
  have k: "py_key B (PyInt n) = Inr (HInt n)" by simp
  show "\<exists>d. ChargerState B state False = Inr d
           \<and> map_of d ''reasonForNoCurrent'' =
               Some (PyStr (''('' @ str_int n @ '') '' @
                 (case map_of REASON_FOR_NO_CURRENT (HInt n) of
                    Some label \<Rightarrow> label
                  | None \<Rightarrow> ''Unknown'')))"
    using ChargerState_decoded [OF assms(2) assms(3) assms(1) k]
    by (simp add: map_of_setitem)
next
  fix m l l'
  assume "''('' @ str_int m @ '') '' @ l = ''('' @ str_int n @ '') '' @ l'"
  then show "m = n" by (rule reason_text_inj)
qed

text \<open>
  C4 at the codes 0 (in the table) and 77 (not in the table).
\<close>

theorem reason_code_text_witness:
  "(\<exists>d. ChargerState sample_builtins
           [(''chargerOpMode'', PyInt 3), (''reasonForNoCurrent'', PyInt 0)] False = Inr d
        \<and> map_of d ''reasonForNoCurrent'' =
            Some (PyStr ''(0) No reason, charging or ready to charge''))
   \<and> (\<exists>d. ChargerState sample_builtins
           [(''chargerOpMode'', PyInt 3), (''reasonForNoCurrent'', PyInt 77)] False = Inr d
        \<and> map_of d ''reasonForNoCurrent'' = Some (PyStr ''(77) Unknown''))"
  using reason_code_text [of "[(''chargerOpMode'', PyInt 3), (''reasonForNoCurrent'', PyInt 0)]"
      0 "PyInt 3" sample_builtins "''CHARGING''", THEN conjunct1]
    reason_code_text [of "[(''chargerOpMode'', PyInt 3), (''reasonForNoCurrent'', PyInt 77)]"
      77 "PyInt 3" sample_builtins "''CHARGING''", THEN conjunct1]
  by (simp add: STATUS_int REASON_FOR_NO_CURRENT_def str_int_def str_nat.simps digit_char_def)

section \<open>Raw mode and the keys of a record\<close>

text \<open>
  C7: in raw mode \<^verbatim>\<open>ChargerState\<close> keeps the value of every key other than
  \<^verbatim>\<open>reasonForNoCurrent\<close>, and keeps that one too unless it is null, which becomes
  \<^verbatim>\<open>none\<close>; raw \<^verbatim>\<open>ChargerConfig\<close> is the payload itself; and in either mode every key
  of the payload is a key of the record constructed.
\<close>

theorem raw_mode_frame:
  "(map_of state ''reasonForNoCurrent'' = Some reason
      \<longrightarrow> (\<exists>d. ChargerState B state True = Inr d
             \<and> (\<forall>k. k \<noteq> ''reasonForNoCurrent'' \<longrightarrow> map_of d k = map_of state k)
             \<and> map_of d ''reasonForNoCurrent'' =
                 Some (if reason = PyNone then PyStr ''none'' else reason)))
   \<and> ChargerConfig B config True = Inr config
   \<and> (ChargerState B state raw = Inr d1 \<longrightarrow> fst ` set state \<subseteq> fst ` set d1)
   \<and> (ChargerConfig B config raw = Inr d2 \<longrightarrow> fst ` set config \<subseteq> fst ` set d2)"
proof (intro conjI impI)
  assume r: "map_of state ''reasonForNoCurrent'' = Some reason"
  show "\<exists>d. ChargerState B state True = Inr d
          \<and> (\<forall>k. k \<noteq> ''reasonForNoCurrent'' \<longrightarrow> map_of d k = map_of state k)
          \<and> map_of d ''reasonForNoCurrent'' =
              Some (if reason = PyNone then PyStr ''none'' else reason)"
    using ChargerState_raw [OF r, of B] by (simp add: map_of_setitem)
next
  show "ChargerConfig B config True = Inr config"
    by (simp add: ChargerConfig_def)
next
  assume "ChargerState B state raw = Inr d1"
  then show "fst ` set state \<subseteq> fst ` set d1"
    using ChargerState_keys by blast
next
  assume "ChargerConfig B config raw = Inr d2"
  then show "fst ` set config \<subseteq> fst ` set d2"
    using ChargerConfig_keys by blast
qed

text \<open>
  C7 at a state payload with an extra field and at a configuration payload.
\<close>

theorem raw_mode_frame_witness:
  "ChargerState sample_builtins
      [(''chargerOpMode'', PyInt 3), (''reasonForNoCurrent'', PyNone), (''voltage'', PyInt 230)] True
     = Inr [(''chargerOpMode'', PyInt 3), (''reasonForNoCurrent'', PyStr ''none''),
            (''voltage'', PyInt 230)]
   \<and> ChargerConfig sample_builtins [(''localNodeType'', PyInt 1), (''phaseMode'', PyInt 2)] True
       = Inr [(''localNodeType'', PyInt 1), (''phaseMode'', PyInt 2)]
   \<and> ChargerState sample_builtins
      [(''chargerOpMode'', PyInt 3), (''reasonForNoCurrent'', PyNone), (''voltage'', PyInt 230)] False
     = Inr [(''chargerOpMode'', PyStr ''CHARGING''),
            (''reasonForNoCurrent'', PyStr ''(None) No reason''),
            (''voltage'', PyInt 230)]
   \<and> fst ` set [(''chargerOpMode'', PyInt 3), (''reasonForNoCurrent'', PyNone),
                (''voltage'', PyInt 230 :: string pyval)]
       \<subseteq> fst ` set [(''chargerOpMode'', PyStr ''CHARGING''),
                     (''reasonForNoCurrent'', PyStr ''(None) No reason''),
                     (''voltage'', PyInt 230 :: string pyval)]
   \<and> ChargerConfig sample_builtins [(''localNodeType'', PyInt 1), (''phaseMode'', PyInt 2)] False
       = Inr [(''localNodeType'', PyStr ''Master''), (''phaseMode'', PyStr ''Auto'')]
   \<and> fst ` set [(''localNodeType'', PyInt 1), (''phaseMode'', PyInt 2 :: string pyval)]
       \<subseteq> fst ` set [(''localNodeType'', PyStr ''Master''), (''phaseMode'', PyStr ''Auto'' :: string pyval)]"
  using raw_mode_frame [where state = "[(''chargerOpMode'', PyInt 3), (''reasonForNoCurrent'', PyNone),
                       (''voltage'', PyInt 230)]"
      and reason = PyNone and B = sample_builtins
      and config = "[(''localNodeType'', PyInt 1), (''phaseMode'', PyInt 2)]"
      and raw = False
      and ?d1.0 = "[(''chargerOpMode'', PyStr ''CHARGING''),
                     (''reasonForNoCurrent'', PyStr ''(None) No reason''),
                     (''voltage'', PyInt 230)]"
      and ?d2.0 = "[(''localNodeType'', PyStr ''Master''), (''phaseMode'', PyStr ''Auto'')]"]
  by (simp add: ChargerState_def ChargerConfig_def getitem_def table_getitem_def table_get_def
      STATUS_def REASON_FOR_NO_CURRENT_def NODE_TYPE_def PHASE_MODE_def)

section \<open>Sessions and schedules\<close>

text \<open>
  C8: the \<^verbatim>\<open>kiloWattHours\<close> of every constructed \<^verbatim>\<open>ChargerSession\<close> is a float; the
  integer 10 and the string \<^verbatim>\<open>10.5\<close> are converted by \<^verbatim>\<open>float\<close>; a missing or null
  field raises \<^verbatim>\<open>TypeError\<close>, the conversion error of \<^verbatim>\<open>float(None)\<close>, and no record
  with a zero is made.
\<close>

theorem session_energy_float:
  "(ChargerSession B session = Inr d \<longrightarrow> (\<exists>x. map_of d ''kiloWattHours'' = Some (PyFloat x)))
   \<and> (map_of session ''kiloWattHours'' = Some (PyInt 10) \<and> float_of_int B 10 = Some x
        \<longrightarrow> (\<exists>d. ChargerSession B session = Inr d \<and> map_of d ''kiloWattHours'' = Some (PyFloat x)))
   \<and> (map_of session ''kiloWattHours'' = Some (PyStr ''10.5'') \<and> float_of_str B ''10.5'' = Some y
        \<longrightarrow> (\<exists>d. ChargerSession B session = Inr d \<and> map_of d ''kiloWattHours'' = Some (PyFloat y)))
   \<and> (map_of session ''kiloWattHours'' = None \<or> map_of session ''kiloWattHours'' = Some PyNone
        \<longrightarrow> ChargerSession B session = Inl TypeError)"
  by (auto simp add: ChargerSession_def get_or_none_def split: sum.splits)

text \<open>
  C8 at payloads with the energy 10, \<^verbatim>\<open>10.5\<close>, missing, and null.
\<close>

theorem session_energy_float_witness:
  "(\<exists>x. map_of [(''carConnected'', PyStr ''2021-01-02T10:00:00''), (''carDisconnected'', PyNone),
                 (''kiloWattHours'', PyFloat ''10.0'')] ''kiloWattHours'' = Some (PyFloat x))
   \<and> (\<exists>d. ChargerSession sample_builtins
            [(''carConnected'', PyStr ''2021-01-02T10:00:00''), (''kiloWattHours'', PyInt 10)] = Inr d
          \<and> map_of d ''kiloWattHours'' = Some (PyFloat ''10.0''))
   \<and> (\<exists>d. ChargerSession sample_builtins [(''kiloWattHours'', PyStr ''10.5'')] = Inr d
          \<and> map_of d ''kiloWattHours'' = Some (PyFloat ''10.5''))
   \<and> ChargerSession sample_builtins [(''carConnected'', PyStr ''2021-01-02T10:00:00'')]
       = Inl TypeError
   \<and> ChargerSession sample_builtins [(''kiloWattHours'', PyNone)] = Inl TypeError"
  using session_energy_float [where B = sample_builtins
      and session = "[(''carConnected'', PyStr ''2021-01-02T10:00:00''), (''kiloWattHours'', PyInt 10)]"
      and d = "[(''carConnected'', PyStr ''2021-01-02T10:00:00''), (''carDisconnected'', PyNone),
                 (''kiloWattHours'', PyFloat ''10.0'')]"
      and x = "''10.0''" and y = "''10.5''"]
    session_energy_float [where B = sample_builtins
      and session = "[(''kiloWattHours'', PyStr ''10.5'')]"
      and d = "[]" and x = "''10.0''" and y = "''10.5''"]
    session_energy_float [where B = sample_builtins
      and session = "[(''carConnected'', PyStr ''2021-01-02T10:00:00'')]"
      and d = "[]" and x = "''10.0''" and y = "''10.5''"]
    session_energy_float [where B = sample_builtins
      and session = "[(''kiloWattHours'', PyNone)]"
      and d = "[]" and x = "''10.0''" and y = "''10.5''"]
  by (simp add: sample_builtins_def ChargerSession_def get_or_none_def str_int_def str_nat.simps
      digit_char_def)

text \<open>
  C10, at a concrete payload: the payload \<^verbatim>\<open>{"chargerOpMode": []}\<close> lacks
  \<^verbatim>\<open>reasonForNoCurrent\<close>, and decoded construction raises \<^verbatim>\<open>TypeError\<close> (the list is
  unhashable in \<^verbatim>\<open>STATUS[...]\<close>, which is evaluated first), not \<^verbatim>\<open>KeyError\<close>.
\<close>

theorem missing_reason_counterexample:
  "map_of [(''chargerOpMode'', PyList [])] ''reasonForNoCurrent'' = None
   \<and> ChargerState sample_builtins [(''chargerOpMode'', PyList [])] False = Inl TypeError
   \<and> ChargerState sample_builtins [(''chargerOpMode'', PyList [])] False \<noteq> Inl KeyError"
  by (simp add: ChargerState_def getitem_def table_getitem_def)

text \<open>
  C10, as the code has it: a payload without \<^verbatim>\<open>reasonForNoCurrent\<close> never yields a
  \<^verbatim>\<open>ChargerState\<close>. Raw mode raises \<^verbatim>\<open>KeyError\<close>. Decoded mode raises \<^verbatim>\<open>KeyError\<close>
  too, except that a list or dictionary under \<^verbatim>\<open>chargerOpMode\<close> raises \<^verbatim>\<open>TypeError\<close>
  first; decoded mode raises \<^verbatim>\<open>KeyError\<close> whenever \<^verbatim>\<open>chargerOpMode\<close> is missing.
  \<^verbatim>\<open>ChargerSchedule\<close> is total: each of its four fields is the payload's value, or
  \<^verbatim>\<open>None\<close> when the payload has none.
\<close>

theorem missing_fields:
  "(map_of state ''reasonForNoCurrent'' = None \<longrightarrow>
      ChargerState B state True = Inl KeyError
      \<and> ChargerState B state False =
          Inl (case map_of state ''chargerOpMode'' of
                 None \<Rightarrow> KeyError
               | Some v \<Rightarrow> if unhashable v then TypeError else KeyError))
   \<and> (map_of state ''chargerOpMode'' = None \<longrightarrow> ChargerState B state False = Inl KeyError)
   \<and> (\<forall>k \<in> {''id'', ''chargeStartTime'', ''chargeStopTime'', ''repeat''}.
        map_of (ChargerSchedule schedule) k =
          Some (case map_of schedule k of None \<Rightarrow> PyNone | Some v \<Rightarrow> v))"
proof (intro conjI impI)
  assume r: "map_of state ''reasonForNoCurrent'' = None"
  show "ChargerState B state True = Inl KeyError"
    using r by (simp add: ChargerState_def getitem_def)
  show "ChargerState B state False =
          Inl (case map_of state ''chargerOpMode'' of
                 None \<Rightarrow> KeyError
               | Some v \<Rightarrow> if unhashable v then TypeError else KeyError)"
  proof (cases "map_of state ''chargerOpMode''")
    case None
    then show ?thesis by (simp add: ChargerState_def getitem_def)
  next
    case (Some v)
    then show ?thesis
      using r
      by (cases v)
         (simp_all add: ChargerState_def getitem_def table_getitem_def
            split: option.splits sum.splits)
  qed
next
  assume "map_of state ''chargerOpMode'' = None"
  then show "ChargerState B state False = Inl KeyError"
    by (simp add: ChargerState_def getitem_def)
next
  show "\<forall>k \<in> {''id'', ''chargeStartTime'', ''chargeStopTime'', ''repeat''}.
        map_of (ChargerSchedule schedule) k =
          Some (case map_of schedule k of None \<Rightarrow> PyNone | Some v \<Rightarrow> v)"
    by (simp add: ChargerSchedule_def get_or_none_def)
qed

text \<open>
  C10 at three state payloads and one schedule payload.
\<close>

theorem missing_fields_witness:
  "ChargerState sample_builtins [(''chargerOpMode'', PyInt 3)] True = Inl KeyError
   \<and> ChargerState sample_builtins [(''chargerOpMode'', PyInt 3)] False = Inl KeyError
   \<and> ChargerState sample_builtins [(''chargerOpMode'', PyList [])] False = Inl TypeError
   \<and> ChargerState sample_builtins [(''reasonForNoCurrent'', PyInt 0)] False = Inl KeyError
   \<and> map_of (ChargerSchedule [(''id'', PyInt 7 :: string pyval)]) ''id'' = Some (PyInt 7)
   \<and> map_of (ChargerSchedule [(''id'', PyInt 7 :: string pyval)]) ''repeat'' = Some PyNone"
  using missing_fields [where state = "[(''chargerOpMode'', PyInt 3)]" and B = sample_builtins
      and schedule = "[(''id'', PyInt 7 :: string pyval)]"]
    missing_fields [where state = "[(''chargerOpMode'', PyList [])]" and B = sample_builtins
      and schedule = "[(''id'', PyInt 7 :: string pyval)]"]
    missing_fields [where state = "[(''reasonForNoCurrent'', PyInt 0)]" and B = sample_builtins
      and schedule = "[(''id'', PyInt 7 :: string pyval)]"]
  by simp

section \<open>Calls on the collaborators\<close>

lemma ChargerSchedule_of_not_NotFound: "ChargerSchedule_of v \<noteq> Inl NotFoundException"
  by (cases v) simp_all

text \<open>
  C1: \<^verbatim>\<open>get_basic_charge_plan\<close> makes the one GET and returns \<^verbatim>\<open>None\<close> exactly when
  the GET or the JSON decode raises \<^verbatim>\<open>NotFoundException\<close>; any other exception of the
  GET or of the decode reaches the caller as it is; a decoded dictionary is returned as a
  \<^verbatim>\<open>ChargerSchedule\<close>, so the result \<^verbatim>\<open>None\<close> of the not-found path holds no schedule.
\<close>

theorem basic_charge_plan_not_found:
  "fst (get_basic_charge_plan self)
     = [Transport (Get (''/api/chargers/'' @ charger_id self @ ''/basic_charge_plan''))]
   \<and> (snd (get_basic_charge_plan self) = Inr None \<longleftrightarrow>
        easee self (Get (''/api/chargers/'' @ charger_id self @ ''/basic_charge_plan''))
          = Inl NotFoundException
        \<or> (\<exists>resp. easee self (Get (''/api/chargers/'' @ charger_id self @ ''/basic_charge_plan''))
                     = Inr resp
                  \<and> json resp = Inl NotFoundException))
   \<and> (easee self (Get (''/api/chargers/'' @ charger_id self @ ''/basic_charge_plan'')) = Inl e
        \<and> e \<noteq> NotFoundException
        \<longrightarrow> snd (get_basic_charge_plan self) = Inl e)
   \<and> (easee self (Get (''/api/chargers/'' @ charger_id self @ ''/basic_charge_plan'')) = Inr r
        \<and> json r = Inl e' \<and> e' \<noteq> NotFoundException
        \<longrightarrow> snd (get_basic_charge_plan self) = Inl e')
   \<and> (easee self (Get (''/api/chargers/'' @ charger_id self @ ''/basic_charge_plan'')) = Inr r
        \<and> json r = Inr (PyDict d)
        \<longrightarrow> snd (get_basic_charge_plan self) = Inr (Some (ChargerSchedule d)))"
proof (intro conjI impI)
  show "fst (get_basic_charge_plan self)
     = [Transport (Get (''/api/chargers/'' @ charger_id self @ ''/basic_charge_plan''))]"
    by (simp add: get_basic_charge_plan_def Let_def)
next
  show "snd (get_basic_charge_plan self) = Inr None \<longleftrightarrow>
        easee self (Get (''/api/chargers/'' @ charger_id self @ ''/basic_charge_plan''))
          = Inl NotFoundException
        \<or> (\<exists>resp. easee self (Get (''/api/chargers/'' @ charger_id self @ ''/basic_charge_plan''))
                     = Inr resp
                  \<and> json resp = Inl NotFoundException)"
    using ChargerSchedule_of_not_NotFound
    by (auto simp add: get_basic_charge_plan_def Let_def except_NotFound_def
        split: sum.splits if_splits)
next
  assume "easee self (Get (''/api/chargers/'' @ charger_id self @ ''/basic_charge_plan'')) = Inl e
        \<and> e \<noteq> NotFoundException"
  then show "snd (get_basic_charge_plan self) = Inl e"
    by (simp add: get_basic_charge_plan_def Let_def except_NotFound_def)
next
  assume "easee self (Get (''/api/chargers/'' @ charger_id self @ ''/basic_charge_plan'')) = Inr r
        \<and> json r = Inl e' \<and> e' \<noteq> NotFoundException"
  then show "snd (get_basic_charge_plan self) = Inl e'"
    by (simp add: get_basic_charge_plan_def Let_def except_NotFound_def)
next
  assume "easee self (Get (''/api/chargers/'' @ charger_id self @ ''/basic_charge_plan'')) = Inr r
        \<and> json r = Inr (PyDict d)"
  then show "snd (get_basic_charge_plan self) = Inr (Some (ChargerSchedule d))"
    by (simp add: get_basic_charge_plan_def Let_def)
qed

text \<open>
  C1 at five transports: not found on the GET, another failure on the GET, another
  failure on the decode, not found on the decode, and a decoded plan.
\<close>

theorem basic_charge_plan_not_found_witness:
  "snd (get_basic_charge_plan
          (\<lparr>charger_id = ''EH12345'', easee = (\<lambda>req. Inl NotFoundException),
            circuit = None\<rparr> :: (string, nat) charger)) = Inr None
   \<and> snd (get_basic_charge_plan
          (\<lparr>charger_id = ''EH12345'', easee = (\<lambda>req. Inl (OtherFailure 7)),
            circuit = None\<rparr> :: (string, nat) charger)) = Inl (OtherFailure 7)
   \<and> snd (get_basic_charge_plan
          (\<lparr>charger_id = ''EH12345'',
            easee = (\<lambda>req. Inr \<lparr>json = Inl ValueError, text_body = Inr ''oops''\<rparr>),
            circuit = None\<rparr> :: (string, nat) charger)) = Inl ValueError
   \<and> snd (get_basic_charge_plan
          (\<lparr>charger_id = ''EH12345'',
            easee = (\<lambda>req. Inr \<lparr>json = Inl NotFoundException, text_body = Inr ''gone''\<rparr>),
            circuit = None\<rparr> :: (string, nat) charger)) = Inr None
   \<and> snd (get_basic_charge_plan
          (\<lparr>charger_id = ''EH12345'',
            easee = (\<lambda>req. Inr \<lparr>json = Inr (PyDict [(''id'', PyInt 1)]), text_body = Inr ''''\<rparr>),
            circuit = None\<rparr> :: (string, nat) charger))
       = Inr (Some (ChargerSchedule [(''id'', PyInt 1)]))"
  using basic_charge_plan_not_found [where self =
        "\<lparr>charger_id = ''EH12345'', easee = (\<lambda>req. Inl NotFoundException),
            circuit = None\<rparr> :: (string, nat) charger"]
    basic_charge_plan_not_found [where self =
        "\<lparr>charger_id = ''EH12345'', easee = (\<lambda>req. Inl (OtherFailure 7)),
            circuit = None\<rparr> :: (string, nat) charger" and e = "OtherFailure 7"]
    basic_charge_plan_not_found [where self =
        "\<lparr>charger_id = ''EH12345'',
            easee = (\<lambda>req. Inr \<lparr>json = Inl ValueError, text_body = Inr ''oops''\<rparr>),
            circuit = None\<rparr> :: (string, nat) charger"
        and r = "\<lparr>json = Inl ValueError, text_body = Inr ''oops''\<rparr>" and e' = ValueError]
    basic_charge_plan_not_found [where self =
        "\<lparr>charger_id = ''EH12345'',
            easee = (\<lambda>req. Inr \<lparr>json = Inl NotFoundException, text_body = Inr ''gone''\<rparr>),
            circuit = None\<rparr> :: (string, nat) charger"]
    basic_charge_plan_not_found [where self =
        "\<lparr>charger_id = ''EH12345'',
            easee = (\<lambda>req. Inr \<lparr>json = Inr (PyDict [(''id'', PyInt 1)]), text_body = Inr ''''\<rparr>),
            circuit = None\<rparr> :: (string, nat) charger"
        and r = "\<lparr>json = Inr (PyDict [(''id'', PyInt 1)]), text_body = Inr ''''\<rparr>"
        and d = "[(''id'', PyInt 1)]"]
  by simp

text \<open>
  C6: the three names and the three integers are sent as the same code, in one PUT to
  the access path of the charger; any other integer or string raises \<^verbatim>\<open>KeyError\<close> with
  no call made.
\<close>

theorem set_access_codes:
  "set_access B self (AccessStr ''whitelist'') = set_access B self (AccessInt 3)
   \<and> set_access B self (AccessStr ''easee_account_required'') = set_access B self (AccessInt 2)
   \<and> set_access B self (AccessStr ''open_for_all'') = set_access B self (AccessInt 1)
   \<and> (n \<in> {1, 2, 3} \<longrightarrow>
        set_access B self (AccessInt n) =
          ([Transport (Put (''/api/chargers/'' @ charger_id self @ ''/access'') (PyInt n))],
           easee self (Put (''/api/chargers/'' @ charger_id self @ ''/access'') (PyInt n))))
   \<and> (a \<notin> {AccessInt 1, AccessInt 2, AccessInt 3, AccessStr ''open_for_all'',
             AccessStr ''easee_account_required'', AccessStr ''whitelist''}
        \<longrightarrow> set_access B self a = ([], Inl KeyError))"
proof (intro conjI impI)
  assume "a \<notin> {AccessInt 1, AccessInt 2, AccessInt 3, AccessStr ''open_for_all'',
             AccessStr ''easee_account_required'', AccessStr ''whitelist''}"
  then show "set_access B self a = ([], Inl KeyError)"
    by (cases a) (auto simp add: set_access_def table_getitem_def access_codes_def)
qed (auto simp add: set_access_def table_getitem_def access_codes_def Let_def)

text \<open>
  C6 at \<^verbatim>\<open>whitelist\<close>, at the integer 4 and at the name \<^verbatim>\<open>admin\<close>.
\<close>

theorem set_access_codes_witness:
  "set_access sample_builtins
      (\<lparr>charger_id = ''EH12345'', easee = (\<lambda>req. Inl (OtherFailure 0)), circuit = None\<rparr>
        :: (string, nat) charger) (AccessStr ''whitelist'')
     = ([Transport (Put ''/api/chargers/EH12345/access'' (PyInt 3))], Inl (OtherFailure 0))
   \<and> set_access sample_builtins
      (\<lparr>charger_id = ''EH12345'', easee = (\<lambda>req. Inl (OtherFailure 0)), circuit = None\<rparr>
        :: (string, nat) charger) (AccessInt 4)
     = ([], Inl KeyError)
   \<and> set_access sample_builtins
      (\<lparr>charger_id = ''EH12345'', easee = (\<lambda>req. Inl (OtherFailure 0)), circuit = None\<rparr>
        :: (string, nat) charger) (AccessStr ''admin'')
     = ([], Inl KeyError)"
  using set_access_codes [where B = sample_builtins and self =
        "\<lparr>charger_id = ''EH12345'', easee = (\<lambda>req. Inl (OtherFailure 0)), circuit = None\<rparr>
          :: (string, nat) charger" and n = 3 and a = "AccessInt 4"]
    set_access_codes [where B = sample_builtins and self =
        "\<lparr>charger_id = ''EH12345'', easee = (\<lambda>req. Inl (OtherFailure 0)), circuit = None\<rparr>
          :: (string, nat) charger" and n = 3 and a = "AccessStr ''admin''"]
  by simp

text \<open>
  C9: without a circuit each of the three methods makes no call and returns \<^verbatim>\<open>None\<close>;
  with a circuit each makes exactly one call, of the circuit's method of the same kind
  with the same three currents, and returns what that call returns or raises.
\<close>

theorem circuit_delegation:
  "(circuit self = None \<longrightarrow>
      set_dynamic_charger_circuit_current self p1 p2 p3 = ([], Inr None)
      \<and> set_max_charger_circuit_current self p1 p2 p3 = ([], Inr None)
      \<and> set_max_offline_charger_circuit_current self p1 p2 p3 = ([], Inr None))
   \<and> (circuit self = Some c \<longrightarrow>
      set_dynamic_charger_circuit_current self p1 p2 p3 =
        ([Circuit Set_dynamic_current p1 p2 p3],
         case c Set_dynamic_current p1 p2 p3 of Inl e \<Rightarrow> Inl e | Inr r \<Rightarrow> Inr (Some r))
      \<and> set_max_charger_circuit_current self p1 p2 p3 =
        ([Circuit Set_max_current p1 p2 p3],
         case c Set_max_current p1 p2 p3 of Inl e \<Rightarrow> Inl e | Inr r \<Rightarrow> Inr (Some r))
      \<and> set_max_offline_charger_circuit_current self p1 p2 p3 =
        ([Circuit Set_max_offline_current p1 p2 p3],
         case c Set_max_offline_current p1 p2 p3 of Inl e \<Rightarrow> Inl e | Inr r \<Rightarrow> Inr (Some r)))"
  by (simp add: set_dynamic_charger_circuit_current_def set_max_charger_circuit_current_def
      set_max_offline_charger_circuit_current_def)

text \<open>
  C9 at a charger without a circuit and at one whose circuit answers 200.
\<close>

theorem circuit_delegation_witness:
  "set_max_charger_circuit_current
      (\<lparr>charger_id = ''EH12345'', easee = (\<lambda>req. Inl (OtherFailure 0)), circuit = None\<rparr>
        :: (string, nat) charger) 16 None None = ([], Inr None)
   \<and> set_max_charger_circuit_current
      (\<lparr>charger_id = ''EH12345'', easee = (\<lambda>req. Inl (OtherFailure 0)),
        circuit = Some (\<lambda>m a b c. if m = Set_max_current then Inr 200 else Inl (OtherFailure 1))\<rparr>
        :: (string, nat) charger) 16 (Some 16) None
      = ([Circuit Set_max_current 16 (Some 16) None], Inr (Some 200))"
  using circuit_delegation [where self =
        "\<lparr>charger_id = ''EH12345'', easee = (\<lambda>req. Inl (OtherFailure 0)), circuit = None\<rparr>
          :: (string, nat) charger" and ?p1.0 = 16 and ?p2.0 = None and ?p3.0 = None]
    circuit_delegation [where self =
        "\<lparr>charger_id = ''EH12345'', easee = (\<lambda>req. Inl (OtherFailure 0)),
          circuit = Some (\<lambda>m a b c. if m = Set_max_current then Inr 200 else Inl (OtherFailure 1))\<rparr>
          :: (string, nat) charger" and ?p1.0 = 16 and ?p2.0 = "Some 16" and ?p3.0 = None
        and c = "\<lambda>m a b c. if m = Set_max_current then Inr 200 else Inl (OtherFailure 1)"]
  by simp

section \<open>The order of the sessions returned\<close>

text \<open>
  On string keys every comparison succeeds, and insertion keeps the list sorted, keeps
  its elements, and puts the new pair behind the pairs of the same key.
\<close>

lemma py_lt_str: "py_lt B (PyStr a) (PyStr b) = Inr (a < b)"
  by (simp add: py_lt_def)

lemma map_exn_total:
  "\<forall>x \<in> set xs. f x = Inr (g x) \<Longrightarrow> map_exn f xs = Inr (map g xs)"
  by (induction xs) simp_all

lemma map_exn_Inr:
  "\<forall>x \<in> set xs. \<exists>y. f x = Inr y \<and> P y \<Longrightarrow>
   \<exists>ys. map_exn f xs = Inr ys \<and> (\<forall>y \<in> set ys. P y)"
proof (induction xs)
  case Nil
  then show ?case by simp
next
  case (Cons x xs)
  then obtain y where y: "f x = Inr y" "P y" by auto
  from Cons obtain ys where ys: "map_exn f xs = Inr ys" "\<forall>y \<in> set ys. P y" by auto
  from y ys show ?case by simp
qed

lemma insert_pair_str:
  assumes "\<exists>t. fst p = PyStr t"
    and "\<forall>q \<in> set qs. \<exists>t. fst q = PyStr t"
    and "sorted_wrt (\<lambda>a b. text_of (fst a) \<le> text_of (fst b)) qs"
  shows "\<exists>r. insert_pair (py_lt B) p qs = Inr r
           \<and> mset r = add_mset p (mset qs)
           \<and> sorted_wrt (\<lambda>a b. text_of (fst a) \<le> text_of (fst b)) r
           \<and> (\<forall>k. filter (\<lambda>q. fst q = k) r =
                    filter (\<lambda>q. fst q = k) qs @ (if fst p = k then [p] else []))"
  using assms(2,3)
proof (induction qs)
  case Nil
  then show ?case by simp
next
  case (Cons q qs)
  from assms(1) obtain a where a: "fst p = PyStr a" by blast
  from Cons.prems(1) obtain b where b: "fst q = PyStr b" by auto
  have above: "\<forall>x \<in> set qs. b \<le> text_of (fst x)"
    using Cons.prems(2) b by simp
  show ?case
  proof (cases "a < b")
    case True
    have none: "filter (\<lambda>x. fst x = PyStr a) (q # qs) = []"
    proof -
      have "\<forall>x \<in> set (q # qs). fst x \<noteq> PyStr a"
      proof
        fix x assume "x \<in> set (q # qs)"
        then have "b \<le> text_of (fst x)" using above b by auto
        with True show "fst x \<noteq> PyStr a" by auto
      qed
      then show ?thesis unfolding filter_empty_conv by blast
    qed
    have ins: "insert_pair (py_lt B) p (q # qs) = Inr (p # q # qs)"
      using True a b by (simp add: py_lt_str)
    have srt: "sorted_wrt (\<lambda>a b. text_of (fst a) \<le> text_of (fst b)) (p # q # qs)"
      using Cons.prems(2) True a b above by auto
    have flt: "\<forall>k. filter (\<lambda>x. fst x = k) (p # q # qs) =
                 filter (\<lambda>x. fst x = k) (q # qs) @ (if fst p = k then [p] else [])"
    proof
      fix k
      show "filter (\<lambda>x. fst x = k) (p # q # qs) =
                 filter (\<lambda>x. fst x = k) (q # qs) @ (if fst p = k then [p] else [])"
      proof (cases "fst p = k")
        case True
        then have "k = PyStr a" using a by simp
        with none True show ?thesis by simp
      next
        case False
        then show ?thesis by simp
      qed
    qed
    from ins srt flt show ?thesis by simp
  next
    case False
    from Cons.prems have "\<forall>x \<in> set qs. \<exists>t. fst x = PyStr t"
      and "sorted_wrt (\<lambda>a b. text_of (fst a) \<le> text_of (fst b)) qs" by simp_all
    from Cons.IH [OF this] obtain r where r: "insert_pair (py_lt B) p qs = Inr r"
      and mr: "mset r = add_mset p (mset qs)"
      and sr: "sorted_wrt (\<lambda>a b. text_of (fst a) \<le> text_of (fst b)) r"
      and fr: "\<forall>k. filter (\<lambda>x. fst x = k) r =
                 filter (\<lambda>x. fst x = k) qs @ (if fst p = k then [p] else [])"
      by blast
    have setr: "set r = insert p (set qs)"
      using arg_cong [OF mr, of set_mset] by simp
    have ins: "insert_pair (py_lt B) p (q # qs) = Inr (q # r)"
      using False a b r by (simp add: py_lt_str)
    have srt: "sorted_wrt (\<lambda>a b. text_of (fst a) \<le> text_of (fst b)) (q # r)"
      using sr setr above False a b by auto
    have flt: "\<forall>k. filter (\<lambda>x. fst x = k) (q # r) =
                 filter (\<lambda>x. fst x = k) (q # qs) @ (if fst p = k then [p] else [])"
      using fr by simp
    from ins mr srt flt show ?thesis by simp
  qed
qed

lemma sort_pairs_str:
  assumes "\<forall>q \<in> set ps. \<exists>t. fst q = PyStr t"
    and "\<forall>q \<in> set acc. \<exists>t. fst q = PyStr t"
    and "sorted_wrt (\<lambda>a b. text_of (fst a) \<le> text_of (fst b)) acc"
  shows "\<exists>r. sort_pairs (py_lt B) acc ps = Inr r
           \<and> mset r = mset acc + mset ps
           \<and> sorted_wrt (\<lambda>a b. text_of (fst a) \<le> text_of (fst b)) r
           \<and> (\<forall>k. filter (\<lambda>q. fst q = k) r =
                    filter (\<lambda>q. fst q = k) acc @ filter (\<lambda>q. fst q = k) ps)"
  using assms
proof (induction ps arbitrary: acc)
  case Nil
  then show ?case by simp
next
  case (Cons p ps)
  from Cons.prems(1) have kp: "\<exists>t. fst p = PyStr t" by simp
  from insert_pair_str [OF kp Cons.prems(2) Cons.prems(3), of B]
  obtain acc' where i: "insert_pair (py_lt B) p acc = Inr acc'"
    and m: "mset acc' = add_mset p (mset acc)"
    and s: "sorted_wrt (\<lambda>a b. text_of (fst a) \<le> text_of (fst b)) acc'"
    and f: "\<forall>k. filter (\<lambda>q. fst q = k) acc' =
                 filter (\<lambda>q. fst q = k) acc @ (if fst p = k then [p] else [])"
    by blast
  have "set acc' = insert p (set acc)"
    using arg_cong [OF m, of set_mset] by simp
  with kp Cons.prems(2) have k': "\<forall>q \<in> set acc'. \<exists>t. fst q = PyStr t" by auto
  from Cons.prems(1) have kps: "\<forall>q \<in> set ps. \<exists>t. fst q = PyStr t" by simp
  from Cons.IH [OF kps k' s] obtain r where r: "sort_pairs (py_lt B) acc' ps = Inr r"
    and mr: "mset r = mset acc' + mset ps"
    and sr: "sorted_wrt (\<lambda>a b. text_of (fst a) \<le> text_of (fst b)) r"
    and fr: "\<forall>k. filter (\<lambda>q. fst q = k) r =
                 filter (\<lambda>q. fst q = k) acc' @ filter (\<lambda>q. fst q = k) ps"
    by blast
  have "sort_pairs (py_lt B) acc (p # ps) = Inr r"
    using i r by simp
  moreover have "mset r = mset acc + mset (p # ps)"
    using mr m by simp
  moreover have "\<forall>k. filter (\<lambda>q. fst q = k) r =
                 filter (\<lambda>q. fst q = k) acc @ filter (\<lambda>q. fst q = k) (p # ps)"
    using fr f by simp
  ultimately show ?case using sr by blast
qed

lemma zip_keys: "zip (map g xs) xs = map (\<lambda>x. (g x, x)) xs"
  by (induction xs) simp_all

lemma list_sort_desc_str:
  assumes "\<forall>s \<in> set ss. \<exists>t. map_of s ''carConnected'' = Some (PyStr t)"
  shows "\<exists>result. list_sort (py_lt B) (\<lambda>x. getitem x ''carConnected'') True ss = Inr result
           \<and> mset result = mset ss
           \<and> sorted_wrt (\<lambda>a b. connected_at b \<le> connected_at a) result
           \<and> (\<forall>t. filter (\<lambda>s. connected_at s = t) result =
                    filter (\<lambda>s. connected_at s = t) ss)"
proof -
  define g :: "'a pydict \<Rightarrow> 'a pyval" where "g = (\<lambda>s. PyStr (connected_at s))"
  define ps where "ps = map (\<lambda>s. (g s, s)) ss"
  have "\<forall>s \<in> set ss. getitem s ''carConnected'' = Inr (g s)"
    using assms by (auto simp add: g_def getitem_def connected_at_def get_or_none_def)
  then have keys: "map_exn (\<lambda>x. getitem x ''carConnected'') ss = Inr (map g ss)"
    by (rule map_exn_total)
  have inv_ps: "\<forall>p \<in> set ps. fst p = PyStr (connected_at (snd p))"
    by (auto simp add: ps_def g_def)
  then have kps: "\<forall>q \<in> set (rev ps). \<exists>t. fst q = PyStr t" by auto
  have "\<forall>q \<in> set ([] :: ('a pyval \<times> 'a pydict) list). \<exists>t. fst q = PyStr t" by simp
  moreover have "sorted_wrt (\<lambda>a b. text_of (fst a) \<le> text_of (fst b))
                   ([] :: ('a pyval \<times> 'a pydict) list)" by simp
  ultimately obtain r where r: "sort_pairs (py_lt B) [] (rev ps) = Inr r"
    and mr: "mset r = mset [] + mset (rev ps)"
    and sr: "sorted_wrt (\<lambda>a b. text_of (fst a) \<le> text_of (fst b)) r"
    and fr: "\<forall>k. filter (\<lambda>q. fst q = k) r =
                 filter (\<lambda>q. fst q = k) [] @ filter (\<lambda>q. fst q = k) (rev ps)"
    using sort_pairs_str [OF kps, of "[]" B] by blast
  have setr: "set r = set ps"
    using arg_cong [OF mr, of set_mset] by simp
  with inv_ps have inv_r: "\<forall>p \<in> set r. fst p = PyStr (connected_at (snd p))" by simp
  have res: "list_sort (py_lt B) (\<lambda>x. getitem x ''carConnected'') True ss = Inr (map snd (rev r))"
    using keys r by (simp add: list_sort_def zip_keys ps_def)
  have snd_ps: "map snd ps = ss"
    by (simp add: ps_def comp_def)
  have "mset (map snd (rev r)) = image_mset snd (mset r)" by simp
  also have "\<dots> = image_mset snd (mset ps)" using mr by simp
  also have "\<dots> = mset (map snd ps)" by simp
  finally have m: "mset (map snd (rev r)) = mset ss" using snd_ps by simp
  have "sorted_wrt (\<lambda>a b. connected_at (snd a) \<le> connected_at (snd b)) r"
  proof (rule sorted_wrt_mono_rel [OF _ sr])
    fix x y assume "x \<in> set r" "y \<in> set r" "text_of (fst x) \<le> text_of (fst y)"
    with inv_r show "connected_at (snd x) \<le> connected_at (snd y)" by simp
  qed
  then have s: "sorted_wrt (\<lambda>a b. connected_at b \<le> connected_at a) (map snd (rev r))"
    by (simp add: sorted_wrt_map sorted_wrt_rev)
  have f: "\<forall>t. filter (\<lambda>s. connected_at s = t) (map snd (rev r)) =
                filter (\<lambda>s. connected_at s = t) ss"
  proof
    fix t
    have cr: "filter (\<lambda>p. connected_at (snd p) = t) r = filter (\<lambda>p. fst p = PyStr t) r"
      using inv_r by (intro filter_cong) auto
    have cp: "filter (\<lambda>p. connected_at (snd p) = t) ps = filter (\<lambda>p. fst p = PyStr t) ps"
      using inv_ps by (intro filter_cong) auto
    have "filter (\<lambda>s. connected_at s = t) (map snd (rev r)) =
            map snd (rev (filter (\<lambda>p. connected_at (snd p) = t) r))"
      by (simp add: filter_map comp_def rev_filter)
    also have "\<dots> = map snd (rev (filter (\<lambda>p. fst p = PyStr t) (rev ps)))"
      using cr fr by simp
    also have "\<dots> = map snd (filter (\<lambda>p. fst p = PyStr t) ps)"
      by (simp add: rev_filter)
    also have "\<dots> = map snd (filter (\<lambda>p. connected_at (snd p) = t) ps)"
      using cp by simp
    also have "\<dots> = filter (\<lambda>s. connected_at s = t) (map snd ps)"
      by (simp add: filter_map comp_def)
    finally show "filter (\<lambda>s. connected_at s = t) (map snd (rev r)) =
                    filter (\<lambda>s. connected_at s = t) ss"
      using snd_ps by simp
  qed
  from res m s f show ?thesis by blast
qed

lemma sessions_constructed:
  assumes "\<forall>i \<in> set items. \<exists>d t x. i = PyDict d
              \<and> map_of d ''carConnected'' = Some (PyStr t)
              \<and> py_float B (get_or_none d ''kiloWattHours'') = Inr x"
  shows "\<exists>ss. map_exn (ChargerSession_of B) items = Inr ss
           \<and> (\<forall>s \<in> set ss. \<exists>t. map_of s ''carConnected'' = Some (PyStr t))"
proof (rule map_exn_Inr)
  show "\<forall>i \<in> set items. \<exists>y. ChargerSession_of B i = Inr y
           \<and> (\<exists>t. map_of y ''carConnected'' = Some (PyStr t))"
  proof
    fix i assume "i \<in> set items"
    with assms obtain d t x where "i = PyDict d"
      "map_of d ''carConnected'' = Some (PyStr t)"
      "py_float B (get_or_none d ''kiloWattHours'') = Inr x" by blast
    then show "\<exists>y. ChargerSession_of B i = Inr y
           \<and> (\<exists>t. map_of y ''carConnected'' = Some (PyStr t))"
      by (simp add: ChargerSession_def get_or_none_def)
  qed
qed

text \<open>
  C5: when the GET returns a list of session payloads, each with a string under
  \<^verbatim>\<open>carConnected\<close> and an energy that \<^verbatim>\<open>float\<close> converts, \<^verbatim>\<open>get_sessions_between_dates\<close>
  returns the constructed sessions, whatever their order in the response, rearranged so
  that \<^verbatim>\<open>carConnected\<close> descends; the sort is stable: sessions with the same connection
  time keep the order they had in the response.
\<close>

theorem sessions_newest_first:
  assumes "easee self (Get (''/api/sessions/charger/'' @ charger_id self @ ''/sessions/'' @
                            from_date @ ''/'' @ to_date)) = Inr resp"
    and "json resp = Inr (PyList items)"
    and "\<forall>i \<in> set items. \<exists>d t x. i = PyDict d
              \<and> map_of d ''carConnected'' = Some (PyStr t)
              \<and> py_float B (get_or_none d ''kiloWattHours'') = Inr x"
  shows "\<exists>sessions result.
           map_exn (ChargerSession_of B) items = Inr sessions
           \<and> snd (get_sessions_between_dates B self from_date to_date) = Inr result
           \<and> mset result = mset sessions
           \<and> sorted_wrt (\<lambda>a b. connected_at b \<le> connected_at a) result
           \<and> (\<forall>t. filter (\<lambda>s. connected_at s = t) result =
                    filter (\<lambda>s. connected_at s = t) sessions)"
proof -
  from sessions_constructed [OF assms(3)] obtain ss
    where ss: "map_exn (ChargerSession_of B) items = Inr ss"
      and k: "\<forall>s \<in> set ss. \<exists>t. map_of s ''carConnected'' = Some (PyStr t)" by blast
  from list_sort_desc_str [OF k, of B] obtain result
    where r: "list_sort (py_lt B) (\<lambda>x. getitem x ''carConnected'') True ss = Inr result"
      and p: "mset result = mset ss"
         "sorted_wrt (\<lambda>a b. connected_at b \<le> connected_at a) result"
         "\<forall>t. filter (\<lambda>s. connected_at s = t) result = filter (\<lambda>s. connected_at s = t) ss"
    by blast
  have "snd (get_sessions_between_dates B self from_date to_date) = Inr result"
    using assms(1,2) ss r by (simp add: get_sessions_between_dates_def Let_def)
  with ss p show ?thesis by blast
qed

text \<open>
  C5 at a response of three sessions, two of them connected at the same time.
\<close>

theorem sessions_newest_first_witness:
  "\<exists>sessions result.
      map_exn (ChargerSession_of sample_builtins)
        [PyDict [(''carConnected'', PyStr ''2021-01-05T08:00:00''), (''kiloWattHours'', PyFloat ''7.5'')],
         PyDict [(''carConnected'', PyStr ''2021-03-01T08:00:00''), (''kiloWattHours'', PyFloat ''1.5'')],
         PyDict [(''carConnected'', PyStr ''2021-01-05T08:00:00''), (''kiloWattHours'', PyFloat ''2.5'')]]
        = Inr sessions
      \<and> snd (get_sessions_between_dates sample_builtins
          (\<lparr>charger_id = ''EH12345'',
            easee = (\<lambda>req. Inr \<lparr>json = Inr (PyList
              [PyDict [(''carConnected'', PyStr ''2021-01-05T08:00:00''), (''kiloWattHours'', PyFloat ''7.5'')],
               PyDict [(''carConnected'', PyStr ''2021-03-01T08:00:00''), (''kiloWattHours'', PyFloat ''1.5'')],
               PyDict [(''carConnected'', PyStr ''2021-01-05T08:00:00''), (''kiloWattHours'', PyFloat ''2.5'')]]),
              text_body = Inr ''x''\<rparr>),
            circuit = None\<rparr> :: (string, nat) charger)
          ''2021-01-01T00:00:00'' ''2021-12-31T00:00:00'') = Inr result
      \<and> result =
          [[(''carConnected'', PyStr ''2021-03-01T08:00:00''), (''carDisconnected'', PyNone),
            (''kiloWattHours'', PyFloat ''1.5'')],
           [(''carConnected'', PyStr ''2021-01-05T08:00:00''), (''carDisconnected'', PyNone),
            (''kiloWattHours'', PyFloat ''7.5'')],
           [(''carConnected'', PyStr ''2021-01-05T08:00:00''), (''carDisconnected'', PyNone),
            (''kiloWattHours'', PyFloat ''2.5'')]]
      \<and> mset result = mset sessions
      \<and> sorted_wrt (\<lambda>a b. connected_at b \<le> connected_at a) result
      \<and> (\<forall>t. filter (\<lambda>s. connected_at s = t) result = filter (\<lambda>s. connected_at s = t) sessions)"
proof -
  have e: "snd (get_sessions_between_dates sample_builtins
          (\<lparr>charger_id = ''EH12345'',
            easee = (\<lambda>req. Inr \<lparr>json = Inr (PyList
              [PyDict [(''carConnected'', PyStr ''2021-01-05T08:00:00''), (''kiloWattHours'', PyFloat ''7.5'')],
               PyDict [(''carConnected'', PyStr ''2021-03-01T08:00:00''), (''kiloWattHours'', PyFloat ''1.5'')],
               PyDict [(''carConnected'', PyStr ''2021-01-05T08:00:00''), (''kiloWattHours'', PyFloat ''2.5'')]]),
              text_body = Inr ''x''\<rparr>),
            circuit = None\<rparr> :: (string, nat) charger)
          ''2021-01-01T00:00:00'' ''2021-12-31T00:00:00'') =
        Inr [[(''carConnected'', PyStr ''2021-03-01T08:00:00''), (''carDisconnected'', PyNone),
            (''kiloWattHours'', PyFloat ''1.5'')],
           [(''carConnected'', PyStr ''2021-01-05T08:00:00''), (''carDisconnected'', PyNone),
            (''kiloWattHours'', PyFloat ''7.5'')],
           [(''carConnected'', PyStr ''2021-01-05T08:00:00''), (''carDisconnected'', PyNone),
            (''kiloWattHours'', PyFloat ''2.5'')]]"
    by (simp add: get_sessions_between_dates_def Let_def ChargerSession_def get_or_none_def
         list_sort_def getitem_def py_lt_def less_char_def)
  have "\<forall>i \<in> set [PyDict [(''carConnected'', PyStr ''2021-01-05T08:00:00''), (''kiloWattHours'', PyFloat ''7.5'')],
               PyDict [(''carConnected'', PyStr ''2021-03-01T08:00:00''), (''kiloWattHours'', PyFloat ''1.5'')],
               PyDict [(''carConnected'', PyStr ''2021-01-05T08:00:00''), (''kiloWattHours'', PyFloat ''2.5'')]].
          \<exists>d t x. i = PyDict d \<and> map_of d ''carConnected'' = Some (PyStr t)
              \<and> py_float sample_builtins (get_or_none d ''kiloWattHours'') = Inr x"
    by (simp add: get_or_none_def)
  from sessions_newest_first [where B = sample_builtins
      and self = "\<lparr>charger_id = ''EH12345'',
            easee = (\<lambda>req. Inr \<lparr>json = Inr (PyList
              [PyDict [(''carConnected'', PyStr ''2021-01-05T08:00:00''), (''kiloWattHours'', PyFloat ''7.5'')],
               PyDict [(''carConnected'', PyStr ''2021-03-01T08:00:00''), (''kiloWattHours'', PyFloat ''1.5'')],
               PyDict [(''carConnected'', PyStr ''2021-01-05T08:00:00''), (''kiloWattHours'', PyFloat ''2.5'')]]),
              text_body = Inr ''x''\<rparr>),
            circuit = None\<rparr> :: (string, nat) charger"
      and from_date = "''2021-01-01T00:00:00''" and to_date = "''2021-12-31T00:00:00''",
      OF _ _ this]
  obtain sessions result where
    "map_exn (ChargerSession_of sample_builtins)
        [PyDict [(''carConnected'', PyStr ''2021-01-05T08:00:00''), (''kiloWattHours'', PyFloat ''7.5'')],
         PyDict [(''carConnected'', PyStr ''2021-03-01T08:00:00''), (''kiloWattHours'', PyFloat ''1.5'')],
         PyDict [(''carConnected'', PyStr ''2021-01-05T08:00:00''), (''kiloWattHours'', PyFloat ''2.5'')]]
        = Inr sessions"
    "snd (get_sessions_between_dates sample_builtins
          (\<lparr>charger_id = ''EH12345'',
            easee = (\<lambda>req. Inr \<lparr>json = Inr (PyList
              [PyDict [(''carConnected'', PyStr ''2021-01-05T08:00:00''), (''kiloWattHours'', PyFloat ''7.5'')],
               PyDict [(''carConnected'', PyStr ''2021-03-01T08:00:00''), (''kiloWattHours'', PyFloat ''1.5'')],
               PyDict [(''carConnected'', PyStr ''2021-01-05T08:00:00''), (''kiloWattHours'', PyFloat ''2.5'')]]),
              text_body = Inr ''x''\<rparr>),
            circuit = None\<rparr> :: (string, nat) charger)
          ''2021-01-01T00:00:00'' ''2021-12-31T00:00:00'') = Inr result"
    "mset result = mset sessions"
    "sorted_wrt (\<lambda>a b. connected_at b \<le> connected_at a) result"
    "\<forall>t. filter (\<lambda>s. connected_at s = t) result = filter (\<lambda>s. connected_at s = t) sessions"
    by fastforce
  with e show ?thesis by simp
qed

end
